theory Spec2Isabelle
  imports Complex_Main "HOL-Library.Word"
begin

section \<open>txtconv.py: encoding detection and conversion\<close>

text \<open>
  A shallow embedding of \<^verbatim>\<open>src/txtconv.py\<close>: \<^verbatim>\<open>detect_encoding\<close>,
  \<^verbatim>\<open>convert_encoding\<close>, the format guard of \<^verbatim>\<open>main\<close> and the table
  \<^verbatim>\<open>SUPPORTED_FORMATS\<close>. The program's collaborators are the detector
  \<^verbatim>\<open>chardet.detect\<close>, Python's codec machinery (\<^verbatim>\<open>bytes.decode\<close> and the
  encoder behind a text-mode file) and the file system. The first two are parameters of
  the model (a \<open>platform\<close>); the codecs the program names itself are also given
  concretely further down. The file system, standard output and the order of the calls
  made are an explicit state (\<open>world\<close>).
\<close>

subsection \<open>Values\<close>

type_synonym byte = "8 word"

text \<open>A Python \<^verbatim>\<open>str\<close> holding file content is a list of Unicode code points.\<close>

type_synonym pytext = "nat list"

text \<open>The exceptions the modelled code can meet.\<close>

datatype exn =
    OSError
  | UnicodeDecodeError
  | UnicodeEncodeError
  | LookupError
  | TypeError
  | KeyError
  | SystemExit

text \<open>
  The dictionary returned by \<^verbatim>\<open>chardet.detect\<close>, restricted to the two keys the
  program reads. An entry is \<open>None\<close> when the key is absent; the value stored under
  \<^verbatim>\<open>'encoding'\<close> is itself \<^verbatim>\<open>None\<close> or a string.
\<close>

record detection =
  encoding_entry :: "string option option"
  confidence_entry :: "real option"

text \<open>\<^verbatim>\<open>d.get(key, default)\<close>: the default is returned only for an absent key.\<close>

definition dict_get :: "'a option \<Rightarrow> 'a \<Rightarrow> 'a" where
  "dict_get entry dflt = (case entry of None \<Rightarrow> dflt | Some v \<Rightarrow> v)"

text \<open>Truth value of an optional string: \<^verbatim>\<open>None\<close> and \<^verbatim>\<open>''\<close> are false.\<close>

definition truthy :: "string option \<Rightarrow> bool" where
  "truthy v = (case v of None \<Rightarrow> False | Some s \<Rightarrow> s \<noteq> [])"

subsection \<open>Strings\<close>

text \<open>
  \<^verbatim>\<open>str.upper\<close> and \<^verbatim>\<open>str.lower\<close> on format names and detector labels, which
  are ASCII: the letters a-z and A-Z are mapped, every other character is kept.
\<close>

definition upper_char :: "char \<Rightarrow> char" where
  "upper_char c =
     (case map_of (zip ''abcdefghijklmnopqrstuvwxyz'' ''ABCDEFGHIJKLMNOPQRSTUVWXYZ'') c of
        None \<Rightarrow> c
      | Some u \<Rightarrow> u)"

definition lower_char :: "char \<Rightarrow> char" where
  "lower_char c =
     (case map_of (zip ''ABCDEFGHIJKLMNOPQRSTUVWXYZ'' ''abcdefghijklmnopqrstuvwxyz'') c of
        None \<Rightarrow> c
      | Some l \<Rightarrow> l)"

definition upper :: "string \<Rightarrow> string" where
  "upper s = map upper_char s"

definition lower :: "string \<Rightarrow> string" where
  "lower s = map lower_char s"

fun starts_with :: "string \<Rightarrow> string \<Rightarrow> bool" where
  "starts_with s [] = True"
| "starts_with [] (p # ps) = False"
| "starts_with (c # cs) (p # ps) = (c = p \<and> starts_with cs ps)"

text \<open>\<^verbatim>\<open>sub in s\<close> for strings.\<close>

fun contains :: "string \<Rightarrow> string \<Rightarrow> bool" where
  "contains [] sub = (sub = [])"
| "contains (c # cs) sub = (starts_with (c # cs) sub \<or> contains cs sub)"

subsection \<open>The format table\<close>

definition SUPPORTED_FORMATS :: "string \<rightharpoonup> string" where
  "SUPPORTED_FORMATS = map_of
     [(''UTF8'', ''utf-8''),
      (''UTF8WBOM'', ''utf-8''),
      (''UTF8BOM'', ''utf-8-sig''),
      (''ANSI'', ''cp1250''),
      (''ISO8859_2'', ''iso8859_2''),
      (''UTF16LE'', ''utf-16-le''),
      (''UTF16BE'', ''utf-16-be'')]"

subsection \<open>The world: files, output, calls\<close>

text \<open>What the program prints, without the colour codes.\<close>

datatype message =
    CannotRead string exn
  | CreatedEmpty string string
  | ChardetDetected string real
  | DecodedUnicode string
  | UsedFallback string
  | DecodedUsing string
  | AllDecodingFailed
  | Saved string string
  | ErrorWriting string exn
  | InvalidFormat string
  | SupportedFormatsAre

text \<open>The calls to collaborators, recorded in the order they are made.\<close>

datatype call =
    ReadFile string
  | OpenWrite string
  | Detect
  | Decode string
  | Encode string

text \<open>
  \<open>files\<close> maps a path to the file's content; opening a path in \<open>denied\<close> raises
  \<^verbatim>\<open>PermissionError\<close>, opening a missing file for reading raises
  \<^verbatim>\<open>FileNotFoundError\<close> (both are \<^verbatim>\<open>OSError\<close>).
\<close>

record world =
  files :: "string \<rightharpoonup> byte list"
  denied :: "string set"
  stdout :: "message list"
  calls :: "call list"

definition print_msg :: "message \<Rightarrow> world \<Rightarrow> world" where
  "print_msg m w = w\<lparr>stdout := stdout w @ [m]\<rparr>"

definition record_call :: "call \<Rightarrow> world \<Rightarrow> world" where
  "record_call c w = w\<lparr>calls := calls w @ [c]\<rparr>"

text \<open>\<^verbatim>\<open>with open(p, 'rb') as f: f.read()\<close>\<close>

definition read_file :: "string \<Rightarrow> world \<Rightarrow> (exn + byte list) \<times> world" where
  "read_file p w =
     (let w1 = record_call (ReadFile p) w in
      if p \<in> denied w then (Inl OSError, w1)
      else case files w p of
             None \<Rightarrow> (Inl OSError, w1)
           | Some data \<Rightarrow> (Inr data, w1))"

text \<open>\<^verbatim>\<open>open(p, 'w')\<close>: the file is created, or truncated when it exists.\<close>

definition open_write :: "string \<Rightarrow> world \<Rightarrow> (exn + unit) \<times> world" where
  "open_write p w =
     (let w1 = record_call (OpenWrite p) w in
      if p \<in> denied w then (Inl OSError, w1)
      else (Inr (), w1\<lparr>files := (files w1)(p \<mapsto> [])\<rparr>))"

subsection \<open>The platform\<close>

text \<open>
  \<open>chardet_detect\<close> is \<^verbatim>\<open>chardet.detect\<close>; \<open>bytes_decode enc raw\<close> is
  \<^verbatim>\<open>raw.decode(enc)\<close>; \<open>text_encode codec t\<close> is what a file opened with
  \<^verbatim>\<open>encoding=codec\<close> turns the written text into.
\<close>

record platform =
  chardet_detect :: "byte list \<Rightarrow> detection"
  bytes_decode :: "string \<Rightarrow> byte list \<Rightarrow> exn + pytext"
  text_encode :: "string \<Rightarrow> pytext \<Rightarrow> exn + byte list"

subsection \<open>Python's codecs\<close>

text \<open>
  The codecs that the program names itself, as CPython implements them with
  \<^verbatim>\<open>errors='strict'\<close>. A charmap codec is given by its decoding table; the tables
  below are the upper halves (bytes 0x80 to 0xFF) of \<^verbatim>\<open>decoding_table\<close> in
  \<^verbatim>\<open>encodings/cp1250.py\<close> and \<^verbatim>\<open>encodings/iso8859_2.py\<close>, with \<open>None\<close> for
  an undefined byte. The lower half is the identity on ASCII in both.
\<close>

definition cp1250_high :: "nat option list" where
  "cp1250_high =
     [
      Some 0x20AC, None, Some 0x201A, None, Some 0x201E, Some 0x2026, Some 0x2020, Some 0x2021,
      None, Some 0x2030, Some 0x0160, Some 0x2039, Some 0x015A, Some 0x0164, Some 0x017D, Some 0x0179,
      None, Some 0x2018, Some 0x2019, Some 0x201C, Some 0x201D, Some 0x2022, Some 0x2013, Some 0x2014,
      None, Some 0x2122, Some 0x0161, Some 0x203A, Some 0x015B, Some 0x0165, Some 0x017E, Some 0x017A,
      Some 0x00A0, Some 0x02C7, Some 0x02D8, Some 0x0141, Some 0x00A4, Some 0x0104, Some 0x00A6, Some 0x00A7,
      Some 0x00A8, Some 0x00A9, Some 0x015E, Some 0x00AB, Some 0x00AC, Some 0x00AD, Some 0x00AE, Some 0x017B,
      Some 0x00B0, Some 0x00B1, Some 0x02DB, Some 0x0142, Some 0x00B4, Some 0x00B5, Some 0x00B6, Some 0x00B7,
      Some 0x00B8, Some 0x0105, Some 0x015F, Some 0x00BB, Some 0x013D, Some 0x02DD, Some 0x013E, Some 0x017C,
      Some 0x0154, Some 0x00C1, Some 0x00C2, Some 0x0102, Some 0x00C4, Some 0x0139, Some 0x0106, Some 0x00C7,
      Some 0x010C, Some 0x00C9, Some 0x0118, Some 0x00CB, Some 0x011A, Some 0x00CD, Some 0x00CE, Some 0x010E,
      Some 0x0110, Some 0x0143, Some 0x0147, Some 0x00D3, Some 0x00D4, Some 0x0150, Some 0x00D6, Some 0x00D7,
      Some 0x0158, Some 0x016E, Some 0x00DA, Some 0x0170, Some 0x00DC, Some 0x00DD, Some 0x0162, Some 0x00DF,
      Some 0x0155, Some 0x00E1, Some 0x00E2, Some 0x0103, Some 0x00E4, Some 0x013A, Some 0x0107, Some 0x00E7,
      Some 0x010D, Some 0x00E9, Some 0x0119, Some 0x00EB, Some 0x011B, Some 0x00ED, Some 0x00EE, Some 0x010F,
      Some 0x0111, Some 0x0144, Some 0x0148, Some 0x00F3, Some 0x00F4, Some 0x0151, Some 0x00F6, Some 0x00F7,
      Some 0x0159, Some 0x016F, Some 0x00FA, Some 0x0171, Some 0x00FC, Some 0x00FD, Some 0x0163, Some 0x02D9
     ]"

definition iso8859_2_high :: "nat option list" where
  "iso8859_2_high =
     [
      Some 0x0080, Some 0x0081, Some 0x0082, Some 0x0083, Some 0x0084, Some 0x0085, Some 0x0086, Some 0x0087,
      Some 0x0088, Some 0x0089, Some 0x008A, Some 0x008B, Some 0x008C, Some 0x008D, Some 0x008E, Some 0x008F,
      Some 0x0090, Some 0x0091, Some 0x0092, Some 0x0093, Some 0x0094, Some 0x0095, Some 0x0096, Some 0x0097,
      Some 0x0098, Some 0x0099, Some 0x009A, Some 0x009B, Some 0x009C, Some 0x009D, Some 0x009E, Some 0x009F,
      Some 0x00A0, Some 0x0104, Some 0x02D8, Some 0x0141, Some 0x00A4, Some 0x013D, Some 0x015A, Some 0x00A7,
      Some 0x00A8, Some 0x0160, Some 0x015E, Some 0x0164, Some 0x0179, Some 0x00AD, Some 0x017D, Some 0x017B,
      Some 0x00B0, Some 0x0105, Some 0x02DB, Some 0x0142, Some 0x00B4, Some 0x013E, Some 0x015B, Some 0x02C7,
      Some 0x00B8, Some 0x0161, Some 0x015F, Some 0x0165, Some 0x017A, Some 0x02DD, Some 0x017E, Some 0x017C,
      Some 0x0154, Some 0x00C1, Some 0x00C2, Some 0x0102, Some 0x00C4, Some 0x0139, Some 0x0106, Some 0x00C7,
      Some 0x010C, Some 0x00C9, Some 0x0118, Some 0x00CB, Some 0x011A, Some 0x00CD, Some 0x00CE, Some 0x010E,
      Some 0x0110, Some 0x0143, Some 0x0147, Some 0x00D3, Some 0x00D4, Some 0x0150, Some 0x00D6, Some 0x00D7,
      Some 0x0158, Some 0x016E, Some 0x00DA, Some 0x0170, Some 0x00DC, Some 0x00DD, Some 0x0162, Some 0x00DF,
      Some 0x0155, Some 0x00E1, Some 0x00E2, Some 0x0103, Some 0x00E4, Some 0x013A, Some 0x0107, Some 0x00E7,
      Some 0x010D, Some 0x00E9, Some 0x0119, Some 0x00EB, Some 0x011B, Some 0x00ED, Some 0x00EE, Some 0x010F,
      Some 0x0111, Some 0x0144, Some 0x0148, Some 0x00F3, Some 0x00F4, Some 0x0151, Some 0x00F6, Some 0x00F7,
      Some 0x0159, Some 0x016F, Some 0x00FA, Some 0x0171, Some 0x00FC, Some 0x00FD, Some 0x0163, Some 0x02D9
     ]"

definition charmap_decode_byte :: "nat option list \<Rightarrow> byte \<Rightarrow> nat option" where
  "charmap_decode_byte high b =
     (if b < 0x80 then Some (unat b) else high ! (unat b - 128))"

fun charmap_decode :: "nat option list \<Rightarrow> byte list \<Rightarrow> pytext option" where
  "charmap_decode high [] = Some []"
| "charmap_decode high (b # bs) =
     (case charmap_decode_byte high b of
        None \<Rightarrow> None
      | Some c \<Rightarrow> map_option ((#) c) (charmap_decode high bs))"

fun index_of :: "'a \<Rightarrow> 'a list \<Rightarrow> nat option" where
  "index_of x [] = None"
| "index_of x (y # ys) = (if x = y then Some 0 else map_option Suc (index_of x ys))"

text \<open>The encoding table is the inverse of the decoding table on its defined entries.\<close>

definition charmap_encode_char :: "nat option list \<Rightarrow> nat \<Rightarrow> byte option" where
  "charmap_encode_char high c =
     (if c < 128 then Some (of_nat c)
      else map_option (\<lambda>i. of_nat (128 + i)) (index_of (Some c) high))"

fun charmap_encode :: "nat option list \<Rightarrow> pytext \<Rightarrow> byte list option" where
  "charmap_encode high [] = Some []"
| "charmap_encode high (c # cs) =
     (case charmap_encode_char high c of
        None \<Rightarrow> None
      | Some b \<Rightarrow> map_option ((#) b) (charmap_encode high cs))"

text \<open>UTF-8: surrogates and values above 0x10FFFF are not encodable.\<close>

definition utf8_encode_char :: "nat \<Rightarrow> byte list option" where
  "utf8_encode_char c =
     (if c < 0x80 then Some [of_nat c]
      else if c < 0x800 then Some [of_nat (0xC0 + c div 64), of_nat (0x80 + c mod 64)]
      else if 0xD800 \<le> c \<and> c \<le> 0xDFFF then None
      else if c < 0x10000 then
        Some [of_nat (0xE0 + c div 4096), of_nat (0x80 + c div 64 mod 64),
              of_nat (0x80 + c mod 64)]
      else if c < 0x110000 then
        Some [of_nat (0xF0 + c div 262144), of_nat (0x80 + c div 4096 mod 64),
              of_nat (0x80 + c div 64 mod 64), of_nat (0x80 + c mod 64)]
      else None)"

fun utf8_encode :: "pytext \<Rightarrow> byte list option" where
  "utf8_encode [] = Some []"
| "utf8_encode (c # cs) =
     (case utf8_encode_char c of
        None \<Rightarrow> None
      | Some bs \<Rightarrow> map_option ((@) bs) (utf8_encode cs))"

definition is_cont :: "byte \<Rightarrow> bool" where
  "is_cont b = (0x80 \<le> b \<and> b \<le> 0xBF)"

definition cont_bits :: "byte \<Rightarrow> nat" where
  "cont_bits b = unat b - 0x80"

text \<open>
  The strict decoder: a truncated or malformed sequence, an overlong form, a surrogate
  or a value above 0x10FFFF is an error.
\<close>

fun utf8_decode :: "byte list \<Rightarrow> pytext option" where
  "utf8_decode [] = Some []"
| "utf8_decode [b0] =
     (if b0 < 0x80 then Some [unat b0] else None)"
| "utf8_decode [b0, b1] =
     (if b0 < 0x80 then map_option ((#) (unat b0)) (utf8_decode [b1])
      else if 0xC2 \<le> b0 \<and> b0 \<le> 0xDF \<and> is_cont b1
      then Some [(unat b0 - 0xC0) * 64 + cont_bits b1]
      else None)"
| "utf8_decode [b0, b1, b2] =
     (if b0 < 0x80 then map_option ((#) (unat b0)) (utf8_decode [b1, b2])
      else if 0xC2 \<le> b0 \<and> b0 \<le> 0xDF \<and> is_cont b1
      then map_option ((#) ((unat b0 - 0xC0) * 64 + cont_bits b1)) (utf8_decode [b2])
      else if 0xE0 \<le> b0 \<and> b0 \<le> 0xEF \<and> is_cont b1 \<and> is_cont b2
      then (let c = (unat b0 - 0xE0) * 4096 + cont_bits b1 * 64 + cont_bits b2
            in if 0x800 \<le> c \<and> \<not> (0xD800 \<le> c \<and> c \<le> 0xDFFF) then Some [c] else None)
      else None)"
| "utf8_decode (b0 # b1 # b2 # b3 # bs) =
     (if b0 < 0x80 then map_option ((#) (unat b0)) (utf8_decode (b1 # b2 # b3 # bs))
      else if 0xC2 \<le> b0 \<and> b0 \<le> 0xDF \<and> is_cont b1
      then map_option ((#) ((unat b0 - 0xC0) * 64 + cont_bits b1))
             (utf8_decode (b2 # b3 # bs))
      else if 0xE0 \<le> b0 \<and> b0 \<le> 0xEF \<and> is_cont b1 \<and> is_cont b2
      then (let c = (unat b0 - 0xE0) * 4096 + cont_bits b1 * 64 + cont_bits b2
            in if 0x800 \<le> c \<and> \<not> (0xD800 \<le> c \<and> c \<le> 0xDFFF)
               then map_option ((#) c) (utf8_decode (b3 # bs)) else None)
      else if 0xF0 \<le> b0 \<and> b0 \<le> 0xF4 \<and> is_cont b1 \<and> is_cont b2 \<and> is_cont b3
      then (let c = (unat b0 - 0xF0) * 262144 + cont_bits b1 * 4096
                    + cont_bits b2 * 64 + cont_bits b3
            in if 0x10000 \<le> c \<and> c < 0x110000
               then map_option ((#) c) (utf8_decode bs) else None)
      else None)"

definition utf8_bom :: "byte list" where
  "utf8_bom = [0xEF, 0xBB, 0xBF]"

text \<open>utf-8-sig writes the signature first, and skips one when decoding.\<close>

definition utf8_sig_encode :: "pytext \<Rightarrow> byte list option" where
  "utf8_sig_encode t = map_option ((@) utf8_bom) (utf8_encode t)"

definition utf8_sig_decode :: "byte list \<Rightarrow> pytext option" where
  "utf8_sig_decode raw =
     (if take 3 raw = utf8_bom then utf8_decode (drop 3 raw) else utf8_decode raw)"

text \<open>
  UTF-16 without a byte order mark; \<open>big\<close> selects the byte order. A 16-bit unit is
  written as the pair of its bytes in that order.
\<close>

definition unit_bytes :: "bool \<Rightarrow> nat \<Rightarrow> byte list" where
  "unit_bytes big u =
     (if big then [of_nat (u div 256), of_nat (u mod 256)]
      else [of_nat (u mod 256), of_nat (u div 256)])"

definition utf16_encode_char :: "bool \<Rightarrow> nat \<Rightarrow> byte list option" where
  "utf16_encode_char big c =
     (if 0xD800 \<le> c \<and> c \<le> 0xDFFF then None
      else if c < 0x10000 then Some (unit_bytes big c)
      else if c < 0x110000 then
        Some (unit_bytes big (0xD800 + (c - 0x10000) div 1024)
              @ unit_bytes big (0xDC00 + (c - 0x10000) mod 1024))
      else None)"

fun utf16_encode :: "bool \<Rightarrow> pytext \<Rightarrow> byte list option" where
  "utf16_encode big [] = Some []"
| "utf16_encode big (c # cs) =
     (case utf16_encode_char big c of
        None \<Rightarrow> None
      | Some bs \<Rightarrow> map_option ((@) bs) (utf16_encode big cs))"

definition unit_of :: "bool \<Rightarrow> byte \<Rightarrow> byte \<Rightarrow> nat" where
  "unit_of big x y = (if big then unat x * 256 + unat y else unat y * 256 + unat x)"

text \<open>An odd number of bytes or an unpaired surrogate is an error.\<close>

fun utf16_decode :: "bool \<Rightarrow> byte list \<Rightarrow> pytext option" where
  "utf16_decode big [] = Some []"
| "utf16_decode big [x] = None"
| "utf16_decode big [x, y] =
     (let u = unit_of big x y
      in if 0xD800 \<le> u \<and> u \<le> 0xDFFF then None else Some [u])"
| "utf16_decode big [x, y, z] = None"
| "utf16_decode big (x # y # x' # y' # bs) =
     (let u = unit_of big x y
      in if 0xD800 \<le> u \<and> u \<le> 0xDBFF then
           (let v = unit_of big x' y'
            in if 0xDC00 \<le> v \<and> v \<le> 0xDFFF
               then map_option ((#) (0x10000 + (u - 0xD800) * 1024 + (v - 0xDC00)))
                      (utf16_decode big bs)
               else None)
         else if 0xDC00 \<le> u \<and> u \<le> 0xDFFF then None
         else map_option ((#) u) (utf16_decode big (x' # y' # bs)))"

datatype codec = CP1250 | ISO8859_2 | UTF_8 | UTF_8_SIG | UTF_16_LE | UTF_16_BE

text \<open>
  The codec names that occur in the program: the two candidates of the priority list
  and the values of \<^verbatim>\<open>SUPPORTED_FORMATS\<close>.
\<close>

definition codec_of_name :: "string \<Rightarrow> codec option" where
  "codec_of_name name =
     (if name = ''windows-1250'' \<or> name = ''cp1250'' then Some CP1250
      else if name = ''iso8859_2'' then Some ISO8859_2
      else if name = ''utf-8'' then Some UTF_8
      else if name = ''utf-8-sig'' then Some UTF_8_SIG
      else if name = ''utf-16-le'' then Some UTF_16_LE
      else if name = ''utf-16-be'' then Some UTF_16_BE
      else None)"

fun codec_decode :: "codec \<Rightarrow> byte list \<Rightarrow> pytext option" where
  "codec_decode CP1250 raw = charmap_decode cp1250_high raw"
| "codec_decode ISO8859_2 raw = charmap_decode iso8859_2_high raw"
| "codec_decode UTF_8 raw = utf8_decode raw"
| "codec_decode UTF_8_SIG raw = utf8_sig_decode raw"
| "codec_decode UTF_16_LE raw = utf16_decode False raw"
| "codec_decode UTF_16_BE raw = utf16_decode True raw"

fun codec_encode :: "codec \<Rightarrow> pytext \<Rightarrow> byte list option" where
  "codec_encode CP1250 t = charmap_encode cp1250_high t"
| "codec_encode ISO8859_2 t = charmap_encode iso8859_2_high t"
| "codec_encode UTF_8 t = utf8_encode t"
| "codec_encode UTF_8_SIG t = utf8_sig_encode t"
| "codec_encode UTF_16_LE t = utf16_encode False t"
| "codec_encode UTF_16_BE t = utf16_encode True t"

text \<open>
  \<^verbatim>\<open>raw.decode(enc)\<close> and the encoding of written text on CPython. A name outside the
  ones above is left to \<open>other_decode\<close> and \<open>other_encode\<close>, the rest of the
  codec registry.
\<close>

definition py_decode ::
  "(string \<Rightarrow> byte list \<Rightarrow> exn + pytext) \<Rightarrow> string \<Rightarrow> byte list \<Rightarrow> exn + pytext" where
  "py_decode other_decode enc raw =
     (case codec_of_name enc of
        None \<Rightarrow> other_decode enc raw
      | Some cd \<Rightarrow>
          (case codec_decode cd raw of None \<Rightarrow> Inl UnicodeDecodeError | Some t \<Rightarrow> Inr t))"

definition py_encode ::
  "(string \<Rightarrow> pytext \<Rightarrow> exn + byte list) \<Rightarrow> string \<Rightarrow> pytext \<Rightarrow> exn + byte list" where
  "py_encode other_encode enc t =
     (case codec_of_name enc of
        None \<Rightarrow> other_encode enc t
      | Some cd \<Rightarrow>
          (case codec_encode cd t of None \<Rightarrow> Inl UnicodeEncodeError | Some bs \<Rightarrow> Inr bs))"

definition cpython ::
  "(byte list \<Rightarrow> detection) \<Rightarrow> (string \<Rightarrow> byte list \<Rightarrow> exn + pytext)
     \<Rightarrow> (string \<Rightarrow> pytext \<Rightarrow> exn + byte list) \<Rightarrow> platform" where
  "cpython detect other_decode other_encode =
     \<lparr>chardet_detect = detect,
      bytes_decode = py_decode other_decode,
      text_encode = py_encode other_encode\<rparr>"

subsection \<open>detect_encoding\<close>

text \<open>
  The function returns a pair of a label and a confidence; the label is a string, or
  \<^verbatim>\<open>None\<close>. When the file cannot be read the pair is the text of the error
  with confidence 0, here \<open>DetectError\<close>.
\<close>

datatype detected =
    Detected "string option" real
  | DetectError exn

definition detect_encoding :: "platform \<Rightarrow> string \<Rightarrow> world \<Rightarrow> detected \<times> world" where
  "detect_encoding P filename w =
     (case read_file filename w of
        (Inl e, w1) \<Rightarrow> (DetectError e, w1)
      | (Inr data, w1) \<Rightarrow>
          if data = [] then (Detected (Some ''empty'') 1, w1)
          else
            (let result = chardet_detect P data;
                 w2 = record_call Detect w1
             in (Detected (dict_get (encoding_entry result) (Some ''unknown''))
                          (dict_get (confidence_entry result) 0), w2)))"

subsection \<open>convert_encoding\<close>

text \<open>The priority list, with chardet's suggestion appended.\<close>

definition encodings_to_try :: "string option \<Rightarrow> string list" where
  "encodings_to_try detected_encoding =
     (let priority = [''windows-1250'', ''iso8859_2''] in
      if truthy detected_encoding \<and> the detected_encoding \<notin> set priority
      then priority @ [the detected_encoding]
      else priority)"

text \<open>
  Lines 122-128: a detected UTF format is tried first. \<open>Inr None\<close> is
  \<^verbatim>\<open>text = None\<close>; \<open>Inl e\<close> is an exception that the handler does not catch.
\<close>

definition trust_utf ::
  "platform \<Rightarrow> byte list \<Rightarrow> string option \<Rightarrow> world \<Rightarrow> (exn + pytext option) \<times> world" where
  "trust_utf P raw_data detected_encoding w =
     (if truthy detected_encoding \<and> contains (lower (the detected_encoding)) ''utf'' then
        (let enc = the detected_encoding;
             w1 = record_call (Decode enc) w
         in case bytes_decode P enc raw_data of
              Inr t \<Rightarrow> (Inr (Some t), print_msg (DecodedUnicode enc) w1)
            | Inl e \<Rightarrow> if e = UnicodeDecodeError then (Inr None, w1) else (Inl e, w1))
      else (Inr None, w))"

text \<open>Lines 131-140: the loop over the candidates.\<close>

fun try_encodings ::
  "platform \<Rightarrow> byte list \<Rightarrow> string option \<Rightarrow> string list \<Rightarrow> world
     \<Rightarrow> (exn + pytext option) \<times> world" where
  "try_encodings P raw_data detected_encoding [] w = (Inr None, w)"
| "try_encodings P raw_data detected_encoding (enc # encs) w =
     (let w1 = record_call (Decode enc) w
      in case bytes_decode P enc raw_data of
           Inr t \<Rightarrow>
             (Inr (Some t),
              print_msg (if Some enc \<noteq> detected_encoding then UsedFallback enc
                     else DecodedUsing enc) w1)
         | Inl e \<Rightarrow>
             if e = UnicodeDecodeError \<or> e = TypeError
             then try_encodings P raw_data detected_encoding encs w1
             else (Inl e, w1))"

text \<open>Lines 111-140: the whole decoding stage.\<close>

definition decode_stage ::
  "platform \<Rightarrow> byte list \<Rightarrow> string option \<Rightarrow> world \<Rightarrow> (exn + pytext option) \<times> world" where
  "decode_stage P raw_data detected_encoding w =
     (case trust_utf P raw_data detected_encoding w of
        (Inl e, w1) \<Rightarrow> (Inl e, w1)
      | (Inr (Some t), w1) \<Rightarrow> (Inr (Some t), w1)
      | (Inr None, w1) \<Rightarrow>
          try_encodings P raw_data detected_encoding (encodings_to_try detected_encoding) w1)"

text \<open>
  Lines 146-151. The arguments of \<^verbatim>\<open>open\<close> are evaluated first, so a format that is
  not a key raises \<^verbatim>\<open>KeyError\<close> before the file is opened. The text is encoded as a
  whole when it is written; when that fails the opened file stays empty. Every
  exception is caught and reported.
\<close>

definition write_output ::
  "platform \<Rightarrow> string \<Rightarrow> string \<Rightarrow> pytext \<Rightarrow> world \<Rightarrow> world" where
  "write_output P file_out target_format_upper t w =
     (case SUPPORTED_FORMATS target_format_upper of
        None \<Rightarrow> print_msg (ErrorWriting file_out KeyError) w
      | Some codec \<Rightarrow>
          (case open_write file_out w of
             (Inl e, w1) \<Rightarrow> print_msg (ErrorWriting file_out e) w1
           | (Inr u, w1) \<Rightarrow>
               (let w2 = record_call (Encode codec) w1
                in case text_encode P codec t of
                     Inl e \<Rightarrow> print_msg (ErrorWriting file_out e) w2
                   | Inr bs \<Rightarrow>
                       print_msg (Saved file_out target_format_upper)
                         (w2\<lparr>files := (files w2)(file_out \<mapsto> bs)\<rparr>))))"

text \<open>Lines 142-151: what follows the decoding stage.\<close>

definition conclude ::
  "platform \<Rightarrow> string \<Rightarrow> string \<Rightarrow> (exn + pytext option) \<times> world \<Rightarrow> exn option \<times> world" where
  "conclude P file_out target_format_upper r =
     (case r of
        (Inl e, w) \<Rightarrow> (Some e, w)
      | (Inr None, w) \<Rightarrow> (None, print_msg AllDecodingFailed w)
      | (Inr (Some t), w) \<Rightarrow> (None, write_output P file_out target_format_upper t w))"

text \<open>
  The result is \<open>None\<close> when the function returns, \<open>Some e\<close> when the exception
  \<open>e\<close> leaves it. A missing confidence is \<^verbatim>\<open>None\<close>, and \<^verbatim>\<open>None*100\<close> in the
  message of line 109 raises \<^verbatim>\<open>TypeError\<close>.
\<close>

definition convert_encoding ::
  "platform \<Rightarrow> string \<Rightarrow> string \<Rightarrow> string \<Rightarrow> world \<Rightarrow> exn option \<times> world" where
  "convert_encoding P file_in file_out target_format w =
     (let target_format_upper = upper target_format in
      case read_file file_in w of
        (Inl e, w1) \<Rightarrow> (None, print_msg (CannotRead file_in e) w1)
      | (Inr raw_data, w1) \<Rightarrow>
          if raw_data = [] then
            (case open_write file_out w1 of
               (Inl e, w2) \<Rightarrow> (Some e, w2)
             | (Inr u, w2) \<Rightarrow>
                 (None, print_msg (CreatedEmpty file_out target_format_upper) w2))
          else
            (let detection = chardet_detect P raw_data;
                 w2 = record_call Detect w1;
                 detected_encoding = dict_get (encoding_entry detection) None
             in case confidence_entry detection of
                  None \<Rightarrow> (Some TypeError, w2)
                | Some confidence \<Rightarrow>
                    (let w3 = print_msg (ChardetDetected
                                 (if truthy detected_encoding then the detected_encoding
                                  else ''unknown'') (confidence * 100)) w2
                     in conclude P file_out target_format_upper
                          (decode_stage P raw_data detected_encoding w3))))"

text \<open>
  The world in which the decoding stage of \<^verbatim>\<open>convert_encoding\<close> starts: the input
  has been read, the detector consulted and its answer printed.
\<close>

definition detected_world :: "world \<Rightarrow> string \<Rightarrow> string option \<Rightarrow> real \<Rightarrow> world" where
  "detected_world w file_in detected_encoding confidence =
     w\<lparr>calls := calls w @ [ReadFile file_in, Detect],
       stdout := stdout w @
         [ChardetDetected
            (if truthy detected_encoding then the detected_encoding else ''unknown'')
            (confidence * 100)]\<rparr>"

subsection \<open>main\<close>

text \<open>The parsed command line.\<close>

record args =
  arg_input_file :: "string option"
  arg_output_file :: "string option"
  arg_format :: "string option"
  arg_ext :: "string option"
  arg_suffix :: "string option"
  arg_dir :: string
  arg_recursive :: bool
  arg_show_ext :: "string option"
  arg_stat :: bool
  arg_rem :: bool
  arg_color :: bool
  arg_overwrite :: bool
  arg_help :: bool

text \<open>The branch that \<^verbatim>\<open>main\<close> takes, in the order of its tests.\<close>

datatype action =
    DetailedHelp
  | InvalidFormatExit
  | ShowFilesInfo
  | AllRequiresFormat
  | ProcessAll
  | ConvertGiven
  | ConvertAutoName
  | ShowDetected
  | BadCombination
  | NoAction

definition main_action :: "args \<Rightarrow> action" where
  "main_action a =
     (if arg_help a then DetailedHelp
      else if truthy (arg_format a) \<and> SUPPORTED_FORMATS (upper (the (arg_format a))) = None
      then InvalidFormatExit
      else if truthy (arg_show_ext a) then ShowFilesInfo
      else if truthy (arg_ext a) then
        (if \<not> truthy (arg_format a) then AllRequiresFormat else ProcessAll)
      else if truthy (arg_input_file a) then
        (if truthy (arg_output_file a) \<and> truthy (arg_format a) then ConvertGiven
         else if truthy (arg_format a) \<and> \<not> truthy (arg_output_file a) then ConvertAutoName
         else if \<not> truthy (arg_output_file a) then ShowDetected
         else BadCombination)
      else NoAction)"

text \<open>
  \<^verbatim>\<open>main\<close> after argument parsing. The invalid-format exit and the conversion with
  all three of \<^verbatim>\<open>-i\<close>, \<^verbatim>\<open>-o\<close> and \<^verbatim>\<open>--format\<close> are modelled; the other
  branches (listing, batch mode, prompting) are the parameter \<open>others\<close>.
\<close>

definition main ::
  "platform \<Rightarrow> (action \<Rightarrow> args \<Rightarrow> world \<Rightarrow> exn option \<times> world) \<Rightarrow> args \<Rightarrow> world
     \<Rightarrow> exn option \<times> world" where
  "main P others a w =
     (case main_action a of
        InvalidFormatExit \<Rightarrow>
          (Some SystemExit,
           print_msg SupportedFormatsAre (print_msg (InvalidFormat (the (arg_format a))) w))
      | ConvertGiven \<Rightarrow>
          convert_encoding P (the (arg_input_file a)) (the (arg_output_file a))
            (the (arg_format a)) w
      | act \<Rightarrow> others act a w)"

subsection \<open>Sample inputs\<close>

text \<open>A detector result without a label, as chardet gives it for undetectable data.\<close>

definition no_label :: detection where
  "no_label = \<lparr>encoding_entry = Some None, confidence_entry = Some 0\<rparr>"

definition labelled :: "string \<Rightarrow> real \<Rightarrow> detection" where
  "labelled name conf = \<lparr>encoding_entry = Some (Some name), confidence_entry = Some conf\<rparr>"

text \<open>A codec registry that knows no name.\<close>

definition unknown_decode :: "string \<Rightarrow> byte list \<Rightarrow> exn + pytext" where
  "unknown_decode enc raw = Inl LookupError"

definition unknown_encode :: "string \<Rightarrow> pytext \<Rightarrow> exn + byte list" where
  "unknown_encode enc t = Inl LookupError"

text \<open>CPython with a detector that answers \<open>d\<close> for every input.\<close>

definition cpython_with :: "detection \<Rightarrow> platform" where
  "cpython_with d = cpython (\<lambda>raw. d) unknown_decode unknown_encode"

text \<open>A platform on which no codec accepts any input, with detector answer \<open>d\<close>.\<close>

definition rejecting_platform :: "detection \<Rightarrow> platform" where
  "rejecting_platform d =
     \<lparr>chardet_detect = (\<lambda>raw. d),
      bytes_decode = (\<lambda>enc raw. Inl UnicodeDecodeError),
      text_encode = (\<lambda>enc t. Inl UnicodeEncodeError)\<rparr>"

text \<open>A world holding the one file \<^verbatim>\<open>in.txt\<close>.\<close>

definition world_with :: "byte list \<Rightarrow> world" where
  "world_with content =
     \<lparr>files = [''in.txt'' \<mapsto> content], denied = {}, stdout = [], calls = []\<rparr>"

text \<open>
  The command line \<^verbatim>\<open>-i in.txt -o out.txt --format FMT\<close>, every other option at its
  default.
\<close>

definition convert_args :: "string \<Rightarrow> args" where
  "convert_args fmt =
     \<lparr>arg_input_file = Some ''in.txt'', arg_output_file = Some ''out.txt'',
      arg_format = Some fmt, arg_ext = None, arg_suffix = None, arg_dir = ''.'',
      arg_recursive = False, arg_show_ext = None, arg_stat = False, arg_rem = False,
      arg_color = False, arg_overwrite = False, arg_help = False\<rparr>"

text \<open>The bytes \<^verbatim>\<open>b"Zaj\xb1\xe6"\<close>.\<close>

definition zajac_bytes :: "byte list" where
  "zajac_bytes = [0x5A, 0x61, 0x6A, 0xB1, 0xE6]"

text \<open>The Polish letters with diacritics, lower case then upper case.\<close>

definition polish_diacritics :: "nat list" where
  "polish_diacritics =
     [0x0105, 0x0107, 0x0119, 0x0142, 0x0144, 0x00F3, 0x015B, 0x017A, 0x017C,
      0x0104, 0x0106, 0x0118, 0x0141, 0x0143, 0x00D3, 0x015A, 0x0179, 0x017B]"

section \<open>Auxiliary facts\<close>

subsection \<open>The stages of a conversion\<close>

lemmas platform_simps = cpython_with_def cpython_def py_decode_def py_encode_def
  codec_of_name_def unknown_decode_def unknown_encode_def labelled_def no_label_def

lemma try_encodings_first_success:
  assumes "\<forall>p\<in>set pre. bytes_decode P p raw = Inl UnicodeDecodeError
                        \<or> bytes_decode P p raw = Inl TypeError"
    and "bytes_decode P enc raw = Inr t"
  shows "try_encodings P raw det (pre @ enc # post) w =
           (Inr (Some t),
            print_msg (if Some enc \<noteq> det then UsedFallback enc else DecodedUsing enc)
              (w\<lparr>calls := calls w @ map Decode (pre @ [enc])\<rparr>))"
  using assms
proof (induction pre arbitrary: w)
  case Nil
  then show ?case by (simp add: record_call_def)
next
  case (Cons p pre)
  from Cons.prems have "bytes_decode P p raw = Inl UnicodeDecodeError
      \<or> bytes_decode P p raw = Inl TypeError" by simp
  then show ?case using Cons by (elim disjE) (simp_all add: record_call_def)
qed

lemma try_encodings_all_fail:
  assumes "\<forall>p\<in>set encs. bytes_decode P p raw = Inl UnicodeDecodeError
                        \<or> bytes_decode P p raw = Inl TypeError"
  shows "try_encodings P raw det encs w =
           (Inr None, w\<lparr>calls := calls w @ map Decode encs\<rparr>)"
  using assms
proof (induction encs arbitrary: w)
  case Nil
  then show ?case by simp
next
  case (Cons p encs)
  from Cons.prems have "bytes_decode P p raw = Inl UnicodeDecodeError
      \<or> bytes_decode P p raw = Inl TypeError" by simp
  then show ?case using Cons by (elim disjE) (simp_all add: record_call_def)
qed

lemma try_encodings_escape:
  assumes "\<forall>p\<in>set pre. bytes_decode P p raw = Inl UnicodeDecodeError
                        \<or> bytes_decode P p raw = Inl TypeError"
    and "bytes_decode P enc raw = Inl e" and "e \<noteq> UnicodeDecodeError" and "e \<noteq> TypeError"
  shows "try_encodings P raw det (pre @ enc # post) w =
           (Inl e, w\<lparr>calls := calls w @ map Decode (pre @ [enc])\<rparr>)"
  using assms
proof (induction pre arbitrary: w)
  case Nil
  then show ?case by (simp add: record_call_def)
next
  case (Cons p pre)
  from Cons.prems have "bytes_decode P p raw = Inl UnicodeDecodeError
      \<or> bytes_decode P p raw = Inl TypeError" by simp
  then show ?case using Cons by (elim disjE) (simp_all add: record_call_def)
qed

lemma read_file_ok:
  "files w p = Some data \<Longrightarrow> p \<notin> denied w \<Longrightarrow>
     read_file p w = (Inr data, w\<lparr>calls := calls w @ [ReadFile p]\<rparr>)"
  by (simp add: read_file_def record_call_def)

lemma convert_encoding_nonempty:
  assumes "files w file_in = Some raw" and "file_in \<notin> denied w" and "raw \<noteq> []"
    and "confidence_entry (chardet_detect P raw) = Some c"
  shows "convert_encoding P file_in file_out target_format w =
           conclude P file_out (upper target_format)
             (decode_stage P raw (dict_get (encoding_entry (chardet_detect P raw)) None)
                (w\<lparr>calls := calls w @ [ReadFile file_in, Detect],
                   stdout := stdout w @
                     [ChardetDetected
                        (if truthy (dict_get (encoding_entry (chardet_detect P raw)) None)
                         then the (dict_get (encoding_entry (chardet_detect P raw)) None)
                         else ''unknown'') (c * 100)]\<rparr>))"
  using assms
  by (simp add: convert_encoding_def read_file_ok record_call_def print_msg_def Let_def)

lemma utf_label_not_priority:
  assumes "contains (lower d) ''utf''"
  shows "d \<noteq> ''windows-1250''" and "d \<noteq> ''iso8859_2''" and "d \<noteq> []"
  using assms by (auto simp: lower_def lower_char_def)

lemma encodings_to_try_utf:
  assumes "contains (lower d) ''utf''"
  shows "encodings_to_try (Some d) = [''windows-1250'', ''iso8859_2'', d]"
  using utf_label_not_priority [OF assms]
  by (simp add: encodings_to_try_def truthy_def)


lemma trust_utf_skip:
  "\<not> (truthy det \<and> contains (lower (the det)) ''utf'') \<Longrightarrow>
     trust_utf P raw det w = (Inr None, w)"
  by (auto simp: trust_utf_def)

lemma decode_stage_no_utf:
  "\<not> (truthy det \<and> contains (lower (the det)) ''utf'') \<Longrightarrow>
     decode_stage P raw det w = try_encodings P raw det (encodings_to_try det) w"
  by (simp add: decode_stage_def trust_utf_skip)

lemma decode_stage_utf_ok:
  assumes "contains (lower d) ''utf''" and "bytes_decode P d raw = Inr t"
  shows "decode_stage P raw (Some d) w =
           (Inr (Some t), print_msg (DecodedUnicode d) (w\<lparr>calls := calls w @ [Decode d]\<rparr>))"
  using assms utf_label_not_priority(3) [OF assms(1)]
  by (simp add: decode_stage_def trust_utf_def truthy_def record_call_def)

lemma decode_stage_utf_fail:
  assumes "contains (lower d) ''utf''" and "bytes_decode P d raw = Inl UnicodeDecodeError"
  shows "decode_stage P raw (Some d) w =
           try_encodings P raw (Some d) [''windows-1250'', ''iso8859_2'', d]
             (w\<lparr>calls := calls w @ [Decode d]\<rparr>)"
  using assms utf_label_not_priority(3) [OF assms(1)] encodings_to_try_utf [OF assms(1)]
  by (simp add: decode_stage_def trust_utf_def truthy_def record_call_def)

lemma decode_stage_utf_escape:
  assumes "contains (lower d) ''utf''" and "bytes_decode P d raw = Inl e"
    and "e \<noteq> UnicodeDecodeError"
  shows "decode_stage P raw (Some d) w = (Inl e, w\<lparr>calls := calls w @ [Decode d]\<rparr>)"
  using assms utf_label_not_priority(3) [OF assms(1)]
  by (simp add: decode_stage_def trust_utf_def truthy_def record_call_def)

lemma convert_encoding_started:
  assumes "files w file_in = Some raw" and "file_in \<notin> denied w" and "raw \<noteq> []"
    and "confidence_entry (chardet_detect P raw) = Some c"
    and "dict_get (encoding_entry (chardet_detect P raw)) None = det"
  shows "convert_encoding P file_in file_out target_format w =
           conclude P file_out (upper target_format)
             (decode_stage P raw det (detected_world w file_in det c))"
  using convert_encoding_nonempty [OF assms(1-4)] assms(5)
  by (simp add: detected_world_def)

lemma try_encodings_keeps_files:
  "files (snd (try_encodings P raw det encs w)) = files w
   \<and> denied (snd (try_encodings P raw det encs w)) = denied w"
proof (induction encs arbitrary: w)
  case Nil
  show ?case by simp
next
  case (Cons a encs)
  show ?case
  proof (cases "bytes_decode P a raw")
    case (Inl e)
    then show ?thesis
      using Cons [of "w\<lparr>calls := calls w @ [Decode a]\<rparr>"]
      by (simp add: record_call_def Let_def)
  next
    case (Inr t)
    then show ?thesis by (simp add: record_call_def print_msg_def Let_def)
  qed
qed

lemma decode_stage_keeps_files:
  "files (snd (decode_stage P raw det w)) = files w
   \<and> denied (snd (decode_stage P raw det w)) = denied w"
proof (cases "truthy det \<and> contains (lower (the det)) ''utf''")
  case False
  then show ?thesis
    using try_encodings_keeps_files [of P raw det "encodings_to_try det" w]
    by (simp add: decode_stage_no_utf)
next
  case True
  show ?thesis
  proof (cases "bytes_decode P (the det) raw")
    case (Inr t)
    then show ?thesis using True
      by (simp add: decode_stage_def trust_utf_def record_call_def print_msg_def Let_def)
  next
    case (Inl e)
    then show ?thesis
      using True try_encodings_keeps_files [of P raw det "encodings_to_try det"
          "w\<lparr>calls := calls w @ [Decode (the det)]\<rparr>"]
      by (simp add: decode_stage_def trust_utf_def record_call_def Let_def)
  qed
qed

lemma world_update_order:
  "w\<lparr>stdout := s, calls := c\<rparr> = w\<lparr>calls := c, stdout := (s :: message list)\<rparr>"
  by (cases w) simp

lemma conclude_failed:
  "conclude P file_out tfu (Inr None, w) = (None, w\<lparr>stdout := stdout w @ [AllDecodingFailed]\<rparr>)"
  by (simp add: conclude_def print_msg_def)

lemma detected_world_files:
  "files (detected_world w file_in det c) = files w"
  "denied (detected_world w file_in det c) = denied w"
  by (simp_all add: detected_world_def)

lemma decode_stage_result_files:
  assumes "decode_stage P raw det v = (r, w4)"
  shows "files w4 = files v" and "denied w4 = denied v"
  using decode_stage_keeps_files [of P raw det v] assms by simp_all

lemma detect_encoding_absent_key:
  assumes "files w filename = Some raw" and "filename \<notin> denied w" and "raw \<noteq> []"
    and "encoding_entry (chardet_detect P raw) = None"
  shows "fst (detect_encoding P filename w) =
           Detected (Some ''unknown'') (dict_get (confidence_entry (chardet_detect P raw)) 0)"
  using assms
  by (simp add: detect_encoding_def read_file_ok record_call_def dict_get_def)

lemma zajac_cp1250: "charmap_decode cp1250_high zajac_bytes = Some [90, 97, 106, 177, 263]"
  by (simp add: zajac_bytes_def charmap_decode_byte_def cp1250_high_def)

lemma zajac_not_latin2: "charmap_encode iso8859_2_high [90, 97, 106, 177, 263] = None"
  by (simp add: charmap_encode_char_def iso8859_2_high_def)

lemma try_encodings_calls_grow:
  "set (calls w) \<subseteq> set (calls (snd (try_encodings P raw det encs w)))"
proof (induction encs arbitrary: w)
  case Nil
  show ?case by simp
next
  case (Cons a encs)
  show ?case
  proof (cases "bytes_decode P a raw")
    case (Inl e)
    then show ?thesis
      using Cons [of "w\<lparr>calls := calls w @ [Decode a]\<rparr>"]
      by (auto simp: record_call_def Let_def)
  next
    case (Inr t)
    then show ?thesis by (auto simp: record_call_def print_msg_def Let_def)
  qed
qed

lemma decode_stage_calls_grow:
  "set (calls w) \<subseteq> set (calls (snd (decode_stage P raw det w)))"
proof (cases "truthy det \<and> contains (lower (the det)) ''utf''")
  case False
  then show ?thesis
    using try_encodings_calls_grow [of w P raw det "encodings_to_try det"]
    by (simp add: decode_stage_no_utf)
next
  case True
  show ?thesis
  proof (cases "bytes_decode P (the det) raw")
    case (Inr t)
    then show ?thesis using True
      by (auto simp: decode_stage_def trust_utf_def record_call_def print_msg_def Let_def)
  next
    case (Inl e)
    then show ?thesis
      using True try_encodings_calls_grow [of "w\<lparr>calls := calls w @ [Decode (the det)]\<rparr>"
          P raw det "encodings_to_try det"]
      by (auto simp: decode_stage_def trust_utf_def record_call_def Let_def)
  qed
qed

lemma write_output_calls_grow:
  "set (calls w) \<subseteq> set (calls (write_output P file_out tfu t w))"
  by (auto simp: write_output_def open_write_def record_call_def print_msg_def Let_def
      split: option.splits sum.splits)

lemma conclude_calls_grow:
  "set (calls w) \<subseteq> set (calls (snd (conclude P file_out tfu (r, w))))"
  using write_output_calls_grow [of w P file_out tfu]
  by (auto simp: conclude_def print_msg_def split: sum.splits option.splits)

lemma convert_encoding_reads_first:
  "ReadFile file_in \<in> set (calls (snd (convert_encoding P file_in file_out f w)))"
proof (cases "read_file file_in w")
  case (Pair r w1)
  then have in1: "ReadFile file_in \<in> set (calls w1)"
    by (auto simp: read_file_def record_call_def Let_def split: if_splits option.splits)
  show ?thesis
  proof (cases r)
    case (Inl e)
    then show ?thesis using Pair in1 by (simp add: convert_encoding_def print_msg_def)
  next
    case (Inr raw)
    show ?thesis
    proof (cases "raw = []")
      case True
      then show ?thesis using Pair Inr in1
        by (auto simp: convert_encoding_def open_write_def record_call_def print_msg_def
            Let_def)
    next
      case False
      show ?thesis
      proof (cases "confidence_entry (chardet_detect P raw)")
        case None
        then show ?thesis using Pair Inr in1 False
          by (simp add: convert_encoding_def record_call_def Let_def)
      next
        case (Some c)
        let ?det = "dict_get (encoding_entry (chardet_detect P raw)) None"
        let ?w3 = "print_msg (ChardetDetected (if truthy ?det then the ?det else ''unknown'')
                      (c * 100)) (record_call Detect w1)"
        obtain r4 w4 where d: "decode_stage P raw ?det ?w3 = (r4, w4)"
          by (cases "decode_stage P raw ?det ?w3")
        have "ReadFile file_in \<in> set (calls ?w3)"
          using in1 by (simp add: print_msg_def record_call_def)
        then have "ReadFile file_in \<in> set (calls w4)"
          using decode_stage_calls_grow [of ?w3 P raw ?det] d by auto
        then have "ReadFile file_in \<in> set (calls (snd (conclude P file_out (upper f) (r4, w4))))"
          using conclude_calls_grow [of w4 P file_out "upper f" r4] by auto
        then show ?thesis using Pair Inr False Some d
          by (simp add: convert_encoding_def Let_def)
      qed
    qed
  qed
qed

lemma conclude_unknown_format:
  assumes "SUPPORTED_FORMATS tfu = None"
  shows "files (snd (conclude P file_out tfu (r, v))) = files v"
  using assms
  by (auto simp: conclude_def write_output_def print_msg_def split: sum.splits option.splits)

lemma convert_encoding_unknown_format_files:
  assumes "SUPPORTED_FORMATS (upper f) = None"
    and "files w file_in = Some raw" and "file_in \<notin> denied w" and "raw \<noteq> []"
  shows "files (snd (convert_encoding P file_in file_out f w)) = files w"
proof (cases "confidence_entry (chardet_detect P raw)")
  case None
  then show ?thesis using assms
    by (simp add: convert_encoding_def read_file_ok record_call_def Let_def)
next
  case (Some c)
  let ?det = "dict_get (encoding_entry (chardet_detect P raw)) None"
  obtain r4 w4 where d: "decode_stage P raw ?det (detected_world w file_in ?det c) = (r4, w4)"
    by (cases "decode_stage P raw ?det (detected_world w file_in ?det c)")
  have "files w4 = files w"
    using decode_stage_result_files(1) [OF d] by (simp add: detected_world_files)
  then show ?thesis
    using convert_encoding_started [OF assms(2-4) Some refl, of file_out f] d
      conclude_unknown_format [OF assms(1), of P file_out r4 w4]
    by simp
qed

lemma encodings_to_try_eq:
  "encodings_to_try det =
     [''windows-1250'', ''iso8859_2'']
     @ (if truthy det \<and> the det \<noteq> ''windows-1250'' \<and> the det \<noteq> ''iso8859_2''
        then [the det] else [])"
  by (auto simp: encodings_to_try_def Let_def)

text \<open>
  The ISO 8859-2 table of CPython defines all 256 bytes, so this codec decodes every
  input: with the codecs above the loop never gets to its third candidate.
\<close>

lemma iso8859_2_byte_defined: "charmap_decode_byte iso8859_2_high b \<noteq> None"
proof (cases "b < 0x80")
  case True
  then show ?thesis by (simp add: charmap_decode_byte_def)
next
  case False
  have len: "length iso8859_2_high = 128" by (simp add: iso8859_2_high_def)
  have "unat b < 256" using unsigned_less [of b, where ?'a = nat] by simp
  then have "unat b - 128 < length iso8859_2_high" using len by simp
  then have "iso8859_2_high ! (unat b - 128) \<in> set iso8859_2_high" by (rule nth_mem)
  moreover have "None \<notin> set iso8859_2_high" by (simp add: iso8859_2_high_def)
  ultimately have "iso8859_2_high ! (unat b - 128) \<noteq> None" by metis
  then show ?thesis using False by (simp add: charmap_decode_byte_def)
qed

lemma iso8859_2_decodes_every_input: "\<exists>t. charmap_decode iso8859_2_high raw = Some t"
proof (induction raw)
  case Nil
  show ?case by simp
next
  case (Cons b raw)
  then show ?case using iso8859_2_byte_defined [of b] by auto
qed

lemma charmap_decode_ascii:
  assumes "\<forall>b\<in>set raw. b < 0x80"
  shows "charmap_decode high raw = Some (map unat raw)"
  using assms by (induction raw) (simp_all add: charmap_decode_byte_def)

lemma py_decode_windows_1250:
  "py_decode other_decode ''windows-1250'' raw = Inl UnicodeDecodeError
   \<or> (\<exists>t. py_decode other_decode ''windows-1250'' raw = Inr t)"
  by (cases "charmap_decode cp1250_high raw") (simp_all add: py_decode_def codec_of_name_def)

lemma py_decode_iso8859_2: "\<exists>t. py_decode other_decode ''iso8859_2'' raw = Inr t"
  using iso8859_2_decodes_every_input [of raw]
  by (auto simp: py_decode_def codec_of_name_def)

lemma legacy_pair_always_decodes:
  assumes "bytes_decode P = py_decode other_decode"
  shows "\<exists>t. fst (try_encodings P raw det (encodings_to_try det) v) = Inr (Some t)"
proof -
  obtain rest where l: "encodings_to_try det = ''windows-1250'' # ''iso8859_2'' # rest"
    by (simp add: encodings_to_try_eq)
  obtain t2 where t2: "bytes_decode P ''iso8859_2'' raw = Inr t2"
    using py_decode_iso8859_2 [of other_decode raw] assms by auto
  from py_decode_windows_1250 [of other_decode raw]
  show ?thesis
  proof
    assume "py_decode other_decode ''windows-1250'' raw = Inl UnicodeDecodeError"
    then show ?thesis using assms l t2 by (simp add: Let_def)
  next
    assume "\<exists>t. py_decode other_decode ''windows-1250'' raw = Inr t"
    then show ?thesis using assms l by (auto simp: Let_def)
  qed
qed

lemma decode_stage_always_decodes:
  assumes "bytes_decode P = py_decode other_decode"
    and "truthy det \<and> contains (lower (the det)) ''utf'' \<longrightarrow>
           (\<forall>e. bytes_decode P (the det) raw = Inl e \<longrightarrow> e = UnicodeDecodeError)"
  shows "\<exists>t. fst (decode_stage P raw det v) = Inr (Some t)"
proof (cases "truthy det \<and> contains (lower (the det)) ''utf''")
  case False
  then show ?thesis
    using legacy_pair_always_decodes [OF assms(1)] by (simp add: decode_stage_no_utf)
next
  case True
  then obtain d where d: "det = Some d" "contains (lower d) ''utf''"
    by (cases det) (auto simp: truthy_def)
  show ?thesis
  proof (cases "bytes_decode P d raw")
    case (Inr t)
    then show ?thesis using d by (simp add: decode_stage_utf_ok)
  next
    case (Inl e)
    then have f: "bytes_decode P d raw = Inl UnicodeDecodeError"
      using assms(2) True d by auto
    show ?thesis
      using legacy_pair_always_decodes [OF assms(1), of raw det
          "v\<lparr>calls := calls v @ [Decode d]\<rparr>"] d encodings_to_try_utf [OF d(2)]
      by (simp add: decode_stage_utf_fail [OF d(2) f] del: try_encodings.simps)
  qed
qed

subsection \<open>Round trips through the codecs\<close>

lemma byte_of_nat:
  assumes "n < 256"
  shows "unat (of_nat n :: byte) = n"
  using assms by (simp add: unat_of_nat)

lemma byte_of_nat_less:
  assumes "n < 256"
  shows "((of_nat n :: byte) < 0x80) = (n < 128)"
  using assms by (simp add: word_less_nat_alt unat_of_nat)

lemma polish_cases:
  assumes "c \<in> set polish_diacritics"
  obtains "c = 0x0105" | "c = 0x0107" | "c = 0x0119" | "c = 0x0142" | "c = 0x0144"
    | "c = 0x00F3" | "c = 0x015B" | "c = 0x017A" | "c = 0x017C"
    | "c = 0x0104" | "c = 0x0106" | "c = 0x0118" | "c = 0x0141" | "c = 0x0143"
    | "c = 0x00D3" | "c = 0x015A" | "c = 0x0179" | "c = 0x017B"
  using assms unfolding polish_diacritics_def by auto

lemma cp1250_char_round_trip:
  assumes "c < 128 \<or> c \<in> set polish_diacritics"
  shows "\<exists>b. charmap_encode_char cp1250_high c = Some b
           \<and> charmap_decode_byte cp1250_high b = Some c"
  using assms
proof
  assume "c < 128"
  then show ?thesis
    by (simp add: charmap_encode_char_def charmap_decode_byte_def byte_of_nat
        byte_of_nat_less)
next
  assume "c \<in> set polish_diacritics"
  then show ?thesis
    by (rule polish_cases)
       (simp_all add: charmap_encode_char_def charmap_decode_byte_def cp1250_high_def)
qed

lemma iso8859_2_char_round_trip:
  assumes "c < 128 \<or> c \<in> set polish_diacritics"
  shows "\<exists>b. charmap_encode_char iso8859_2_high c = Some b
           \<and> charmap_decode_byte iso8859_2_high b = Some c"
  using assms
proof
  assume "c < 128"
  then show ?thesis
    by (simp add: charmap_encode_char_def charmap_decode_byte_def byte_of_nat
        byte_of_nat_less)
next
  assume "c \<in> set polish_diacritics"
  then show ?thesis
    by (rule polish_cases)
       (simp_all add: charmap_encode_char_def charmap_decode_byte_def iso8859_2_high_def)
qed

lemma charmap_round_trip:
  assumes "\<And>c. c \<in> set t \<Longrightarrow>
             \<exists>b. charmap_encode_char high c = Some b \<and> charmap_decode_byte high b = Some c"
  shows "\<exists>bs. charmap_encode high t = Some bs \<and> charmap_decode high bs = Some t"
  using assms
proof (induction t)
  case Nil
  show ?case by simp
next
  case (Cons c t)
  obtain b where b: "charmap_encode_char high c = Some b" "charmap_decode_byte high b = Some c"
    using Cons.prems [of c] by auto
  obtain bs where bs: "charmap_encode high t = Some bs" "charmap_decode high bs = Some t"
    using Cons.IH Cons.prems by auto
  show ?case using b bs by simp
qed


lemma utf8_decode_one:
  assumes "b0 < 0x80"
  shows "utf8_decode (b0 # bs) = map_option ((#) (unat b0)) (utf8_decode bs)"
proof (cases bs)
  case Nil
  then show ?thesis using assms by simp
next
  case (Cons b1 bs1)
  show ?thesis
  proof (cases bs1)
    case Nil
    then show ?thesis using assms Cons by simp
  next
    case (Cons b2 bs2)
    note c2 = this
    show ?thesis
    proof (cases bs2)
      case Nil
      then show ?thesis using assms \<open>bs = b1 # bs1\<close> c2 by simp
    next
      case (Cons b3 bs3)
      then show ?thesis using assms \<open>bs = b1 # bs1\<close> c2 by simp
    qed
  qed
qed

lemma utf8_decode_two:
  assumes "0xC2 \<le> b0" and "b0 \<le> 0xDF" and "is_cont b1"
  shows "utf8_decode (b0 # b1 # bs) =
           map_option ((#) ((unat b0 - 0xC0) * 64 + cont_bits b1)) (utf8_decode bs)"
proof -
  have n: "\<not> b0 < 0x80" using assms(1) by (simp add: word_less_nat_alt word_le_nat_alt)
  show ?thesis
  proof (cases bs)
    case Nil
    then show ?thesis using assms n by simp
  next
    case (Cons b2 bs2)
    note c1 = this
    show ?thesis
    proof (cases bs2)
      case Nil
      then show ?thesis using assms n c1 by simp
    next
      case (Cons b3 bs3)
      then show ?thesis using assms n c1 by simp
    qed
  qed
qed

lemma utf8_char_round_trip:
  assumes "c < 128 \<or> c \<in> set polish_diacritics"
  shows "\<exists>cs. utf8_encode_char c = Some cs
           \<and> (\<forall>bs. utf8_decode (cs @ bs) = map_option ((#) c) (utf8_decode bs))"
  using assms
proof
  assume "c < 128"
  then show ?thesis
    by (simp add: utf8_encode_char_def utf8_decode_one byte_of_nat byte_of_nat_less)
next
  assume "c \<in> set polish_diacritics"
  then show ?thesis
    by (rule polish_cases)
       (simp_all add: utf8_encode_char_def utf8_decode_two is_cont_def cont_bits_def)
qed

lemma utf8_round_trip:
  assumes "\<forall>c\<in>set t. c < 128 \<or> c \<in> set polish_diacritics"
  shows "\<exists>bs. utf8_encode t = Some bs \<and> utf8_decode bs = Some t"
  using assms
proof (induction t)
  case Nil
  show ?case by simp
next
  case (Cons c t)
  obtain cs where cs: "utf8_encode_char c = Some cs"
      "\<And>bs. utf8_decode (cs @ bs) = map_option ((#) c) (utf8_decode bs)"
    using utf8_char_round_trip [of c] Cons.prems by auto
  obtain bs where bs: "utf8_encode t = Some bs" "utf8_decode bs = Some t"
    using Cons.IH Cons.prems by auto
  show ?case using cs bs by simp
qed

lemma utf8_sig_round_trip:
  assumes "\<forall>c\<in>set t. c < 128 \<or> c \<in> set polish_diacritics"
  shows "\<exists>bs. utf8_sig_encode t = Some bs \<and> utf8_sig_decode bs = Some t"
proof -
  obtain bs where bs: "utf8_encode t = Some bs" "utf8_decode bs = Some t"
    using utf8_round_trip [OF assms] by auto
  then show ?thesis
    by (simp add: utf8_sig_encode_def utf8_sig_decode_def utf8_bom_def)
qed

lemma utf16_decode_unit:
  assumes "unit_of big x y < 0xD800"
  shows "utf16_decode big (x # y # bs) = map_option ((#) (unit_of big x y)) (utf16_decode big bs)"
proof (cases bs)
  case Nil
  then show ?thesis using assms by (simp add: Let_def)
next
  case (Cons z bs1)
  show ?thesis
  proof (cases bs1)
    case Nil
    then show ?thesis using assms Cons by simp
  next
    case (Cons z' bs2)
    then show ?thesis using assms \<open>bs = z # bs1\<close> by (simp add: Let_def)
  qed
qed

lemma unit_of_unit_bytes:
  assumes "c < 0x10000"
  shows "unit_bytes big c = [x, y] \<Longrightarrow> unit_of big x y = c"
proof -
  have "c div 256 < 256" "c mod 256 < 256" using assms by simp_all
  then show "unit_bytes big c = [x, y] \<Longrightarrow> unit_of big x y = c"
    by (auto simp: unit_bytes_def unit_of_def byte_of_nat split: if_splits)
qed

lemma utf16_char_round_trip:
  assumes "c < 0xD800"
  shows "\<exists>cs. utf16_encode_char big c = Some cs
           \<and> (\<forall>bs. utf16_decode big (cs @ bs) = map_option ((#) c) (utf16_decode big bs))"
proof -
  obtain x y where xy: "unit_bytes big c = [x, y]"
    by (cases big) (simp_all add: unit_bytes_def)
  have u: "unit_of big x y = c" using unit_of_unit_bytes [OF _ xy] assms by simp
  have "utf16_encode_char big c = Some [x, y]"
    using assms xy by (simp add: utf16_encode_char_def)
  moreover have "utf16_decode big ([x, y] @ bs) = map_option ((#) c) (utf16_decode big bs)" for bs
    using utf16_decode_unit [of big x y bs] u assms by simp
  ultimately show ?thesis by blast
qed

lemma polish_below_surrogates:
  assumes "c < 128 \<or> c \<in> set polish_diacritics"
  shows "c < 0xD800"
  using assms by (auto simp: polish_diacritics_def)

lemma utf16_round_trip:
  assumes "\<forall>c\<in>set t. c < 128 \<or> c \<in> set polish_diacritics"
  shows "\<exists>bs. utf16_encode big t = Some bs \<and> utf16_decode big bs = Some t"
  using assms
proof (induction t)
  case Nil
  show ?case by simp
next
  case (Cons c t)
  have "c < 0xD800" using Cons.prems polish_below_surrogates [of c] by simp
  then obtain cs where cs: "utf16_encode_char big c = Some cs"
      "\<And>bs. utf16_decode big (cs @ bs) = map_option ((#) c) (utf16_decode big bs)"
    using utf16_char_round_trip [of c big] by auto
  obtain bs where bs: "utf16_encode big t = Some bs" "utf16_decode big bs = Some t"
    using Cons.IH Cons.prems by auto
  show ?case using cs bs by simp
qed


lemma supported_codec_names:
  assumes "SUPPORTED_FORMATS F = Some name"
  shows "name = ''utf-8'' \<or> name = ''utf-8-sig'' \<or> name = ''cp1250''
         \<or> name = ''iso8859_2'' \<or> name = ''utf-16-le'' \<or> name = ''utf-16-be''"
  using assms by (auto simp: SUPPORTED_FORMATS_def split: if_splits)

section \<open>The claims\<close>

subsection \<open>Candidate order (C1)\<close>

text \<open>
  Claim C1 fails at its example. In Windows-1250 the byte 0xB1 is the plus-minus sign
  U+00B1, not the letter U+0105: the first candidate decodes \<^verbatim>\<open>b"Zaj\xb1\xe6"\<close>
  to a text that is not the claimed one and that ISO 8859-2 cannot encode, so the
  output file is left empty. The claimed output, the ISO 8859-2 encoding of the
  claimed text, would be the input bytes themselves.
\<close>

theorem zajac_is_not_recovered:
  "convert_encoding (cpython_with no_label) ''in.txt'' ''out.txt'' ''ISO8859_2''
     (world_with zajac_bytes) =
     (None,
      \<lparr>files = [''in.txt'' \<mapsto> zajac_bytes, ''out.txt'' \<mapsto> []], denied = {},
       stdout = [ChardetDetected ''unknown'' 0, UsedFallback ''windows-1250'',
                 ErrorWriting ''out.txt'' UnicodeEncodeError],
       calls = [ReadFile ''in.txt'', Detect, Decode ''windows-1250'', OpenWrite ''out.txt'',
                Encode ''iso8859_2'']\<rparr>)
   \<and> bytes_decode (cpython_with no_label) ''windows-1250'' zajac_bytes
        = Inr [90, 97, 106, 177, 263]
   \<and> [90, 97, 106, 177, 263] \<noteq> [90, 97, 106, 261, 263 :: nat]
   \<and> text_encode (cpython_with no_label) ''iso8859_2'' [90, 97, 106, 261, 263]
        = Inr zajac_bytes"
proof -
  let ?P = "cpython_with no_label"
  let ?w = "world_with zajac_bytes"
  have f: "files ?w ''in.txt'' = Some zajac_bytes" and nd: "''in.txt'' \<notin> denied ?w"
    by (simp_all add: world_with_def)
  have ne: "zajac_bytes \<noteq> []" by (simp add: zajac_bytes_def)
  have c: "confidence_entry (chardet_detect ?P zajac_bytes) = Some 0"
    and l: "dict_get (encoding_entry (chardet_detect ?P zajac_bytes)) None = None"
    by (simp_all add: cpython_with_def cpython_def no_label_def dict_get_def)
  have dec: "bytes_decode ?P ''windows-1250'' zajac_bytes = Inr [90, 97, 106, 177, 263]"
    by (simp add: platform_simps zajac_cp1250)
  have enc: "text_encode ?P ''iso8859_2'' [90, 97, 106, 177, 263] = Inl UnicodeEncodeError"
    by (simp add: platform_simps charmap_encode_char_def iso8859_2_high_def)
  have enc2: "text_encode ?P ''iso8859_2'' [90, 97, 106, 261, 263] = Inr zajac_bytes"
    by (simp add: platform_simps zajac_bytes_def charmap_encode_char_def iso8859_2_high_def)
  have "convert_encoding ?P ''in.txt'' ''out.txt'' ''ISO8859_2'' ?w =
          conclude ?P ''out.txt'' (upper ''ISO8859_2'')
            (decode_stage ?P zajac_bytes None (detected_world ?w ''in.txt'' None 0))"
    by (rule convert_encoding_started [OF f nd ne c l])
  then have "convert_encoding ?P ''in.txt'' ''out.txt'' ''ISO8859_2'' ?w =
     (None,
      \<lparr>files = [''in.txt'' \<mapsto> zajac_bytes, ''out.txt'' \<mapsto> []], denied = {},
       stdout = [ChardetDetected ''unknown'' 0, UsedFallback ''windows-1250'',
                 ErrorWriting ''out.txt'' UnicodeEncodeError],
       calls = [ReadFile ''in.txt'', Detect, Decode ''windows-1250'', OpenWrite ''out.txt'',
                Encode ''iso8859_2'']\<rparr>)"
    using dec enc
    by (simp add: decode_stage_def trust_utf_def encodings_to_try_def truthy_def
        detected_world_def world_with_def record_call_def print_msg_def conclude_def
        write_output_def SUPPORTED_FORMATS_def open_write_def upper_def upper_char_def)
  then show ?thesis using dec enc2 by simp
qed

text \<open>
  Claim C1, amended. For a non-empty input whose detector label does not contain
  "utf", the decoders are tried in the order Windows-1250, ISO 8859-2, then the
  detector's label when there is one and it is not one of those two names; when
  Windows-1250 decodes the input it is the candidate used. For the input
  \<^verbatim>\<open>b"Zaj\xb1\xe6"\<close> and the target ISO8859_2, Windows-1250 decodes the bytes to the
  code points 90, 97, 106, 177, 263; the text cannot be encoded in ISO 8859-2, the
  write step reports the encoding error and the output file is left empty.
\<close>

theorem legacy_candidates_first:
  assumes "files w file_in = Some raw" and "file_in \<notin> denied w" and "raw \<noteq> []"
    and "confidence_entry (chardet_detect P raw) = Some c"
    and "dict_get (encoding_entry (chardet_detect P raw)) None = det"
    and "\<not> (truthy det \<and> contains (lower (the det)) ''utf'')"
  shows "convert_encoding P file_in file_out target_format w =
           conclude P file_out (upper target_format)
             (try_encodings P raw det
                ([''windows-1250'', ''iso8859_2'']
                 @ (if truthy det \<and> the det \<noteq> ''windows-1250'' \<and> the det \<noteq> ''iso8859_2''
                    then [the det] else []))
                (detected_world w file_in det c))
       \<and> (bytes_decode P ''windows-1250'' raw = Inr t \<longrightarrow>
            convert_encoding P file_in file_out target_format w =
              (None, write_output P file_out (upper target_format) t
                 (w\<lparr>calls := calls w @ [ReadFile file_in, Detect, Decode ''windows-1250''],
                    stdout := stdout w @
                      [ChardetDetected (if truthy det then the det else ''unknown'') (c * 100),
                       if det = Some ''windows-1250'' then DecodedUsing ''windows-1250''
                       else UsedFallback ''windows-1250'']\<rparr>)))
       \<and> (raw = zajac_bytes \<and> bytes_decode P = py_decode other_decode
            \<and> text_encode P = py_encode other_encode
            \<and> upper target_format = ''ISO8859_2'' \<and> file_out \<notin> denied w \<longrightarrow>
            bytes_decode P ''windows-1250'' raw = Inr [90, 97, 106, 177, 263]
            \<and> convert_encoding P file_in file_out target_format w =
              (None,
               w\<lparr>files := (files w)(file_out \<mapsto> []),
                 stdout := stdout w @
                   [ChardetDetected (if truthy det then the det else ''unknown'') (c * 100),
                    if det = Some ''windows-1250'' then DecodedUsing ''windows-1250''
                    else UsedFallback ''windows-1250'',
                    ErrorWriting file_out UnicodeEncodeError],
                 calls := calls w @ [ReadFile file_in, Detect, Decode ''windows-1250'',
                                     OpenWrite file_out, Encode ''iso8859_2'']\<rparr>))"
proof -
  have start: "convert_encoding P file_in file_out target_format w =
           conclude P file_out (upper target_format)
             (try_encodings P raw det (encodings_to_try det) (detected_world w file_in det c))"
    using convert_encoding_started [OF assms(1-5)] decode_stage_no_utf [OF assms(6)]
    by simp
  have first: "convert_encoding P file_in file_out target_format w =
              (None, write_output P file_out (upper target_format) t
                 (w\<lparr>calls := calls w @ [ReadFile file_in, Detect, Decode ''windows-1250''],
                    stdout := stdout w @
                      [ChardetDetected (if truthy det then the det else ''unknown'') (c * 100),
                       if det = Some ''windows-1250'' then DecodedUsing ''windows-1250''
                       else UsedFallback ''windows-1250'']\<rparr>))"
    if ok: "bytes_decode P ''windows-1250'' raw = Inr t" for t
  proof -
    have "try_encodings P raw det (encodings_to_try det) (detected_world w file_in det c) =
            (Inr (Some t),
             print_msg (if Some ''windows-1250'' \<noteq> det then UsedFallback ''windows-1250''
                        else DecodedUsing ''windows-1250'')
               ((detected_world w file_in det c)
                  \<lparr>calls := calls (detected_world w file_in det c)
                             @ map Decode ([] @ [''windows-1250''])\<rparr>))"
      using try_encodings_first_success [of "[]" P raw "''windows-1250''" t det
          "''iso8859_2'' # (if truthy det \<and> the det \<noteq> ''windows-1250''
              \<and> the det \<noteq> ''iso8859_2'' then [the det] else [])"
          "detected_world w file_in det c"] ok
      by (simp add: encodings_to_try_eq del: try_encodings.simps)
    then show ?thesis
      using start
      by (cases "det = Some ''windows-1250''")
         (auto simp: conclude_def print_msg_def detected_world_def)
  qed
  show ?thesis
  proof (intro conjI impI)
    show "convert_encoding P file_in file_out target_format w =
           conclude P file_out (upper target_format)
             (try_encodings P raw det
                ([''windows-1250'', ''iso8859_2'']
                 @ (if truthy det \<and> the det \<noteq> ''windows-1250'' \<and> the det \<noteq> ''iso8859_2''
                    then [the det] else []))
                (detected_world w file_in det c))"
      using start by (simp only: encodings_to_try_eq)
  next
    assume "bytes_decode P ''windows-1250'' raw = Inr t"
    then show "convert_encoding P file_in file_out target_format w =
              (None, write_output P file_out (upper target_format) t
                 (w\<lparr>calls := calls w @ [ReadFile file_in, Detect, Decode ''windows-1250''],
                    stdout := stdout w @
                      [ChardetDetected (if truthy det then the det else ''unknown'') (c * 100),
                       if det = Some ''windows-1250'' then DecodedUsing ''windows-1250''
                       else UsedFallback ''windows-1250'']\<rparr>))"
      by (rule first)
  next
    assume h: "raw = zajac_bytes \<and> bytes_decode P = py_decode other_decode
            \<and> text_encode P = py_encode other_encode
            \<and> upper target_format = ''ISO8859_2'' \<and> file_out \<notin> denied w"
    then show "bytes_decode P ''windows-1250'' raw = Inr [90, 97, 106, 177, 263]"
      by (simp add: py_decode_def codec_of_name_def zajac_cp1250)
  next
    assume h: "raw = zajac_bytes \<and> bytes_decode P = py_decode other_decode
            \<and> text_encode P = py_encode other_encode
            \<and> upper target_format = ''ISO8859_2'' \<and> file_out \<notin> denied w"
    then have dec: "bytes_decode P ''windows-1250'' raw = Inr [90, 97, 106, 177, 263]"
      by (simp add: py_decode_def codec_of_name_def zajac_cp1250)
    have enc: "text_encode P ''iso8859_2'' [90, 97, 106, 177, 263] = Inl UnicodeEncodeError"
      using h
      by (simp add: py_encode_def codec_of_name_def charmap_encode_char_def iso8859_2_high_def)
    have sf: "SUPPORTED_FORMATS ''ISO8859_2'' = Some ''iso8859_2''"
      by (simp add: SUPPORTED_FORMATS_def)
    show "convert_encoding P file_in file_out target_format w =
              (None,
               w\<lparr>files := (files w)(file_out \<mapsto> []),
                 stdout := stdout w @
                   [ChardetDetected (if truthy det then the det else ''unknown'') (c * 100),
                    if det = Some ''windows-1250'' then DecodedUsing ''windows-1250''
                    else UsedFallback ''windows-1250'',
                    ErrorWriting file_out UnicodeEncodeError],
                 calls := calls w @ [ReadFile file_in, Detect, Decode ''windows-1250'',
                                     OpenWrite file_out, Encode ''iso8859_2'']\<rparr>)"
      using first [OF dec] h enc sf
      by (cases w)
         (simp add: write_output_def open_write_def record_call_def print_msg_def)
  qed
qed

theorem legacy_candidates_first_witness:
  "files (world_with zajac_bytes) ''in.txt'' = Some zajac_bytes
   \<and> ''in.txt'' \<notin> denied (world_with zajac_bytes)
   \<and> zajac_bytes \<noteq> []
   \<and> confidence_entry (chardet_detect (cpython_with (labelled ''Windows-1252'' 0.73))
        zajac_bytes) = Some 0.73
   \<and> dict_get (encoding_entry (chardet_detect (cpython_with (labelled ''Windows-1252'' 0.73))
        zajac_bytes)) None = Some ''Windows-1252''
   \<and> \<not> contains (lower ''Windows-1252'') ''utf''
   \<and> bytes_decode (cpython_with (labelled ''Windows-1252'' 0.73)) ''windows-1250''
        zajac_bytes = Inr [90, 97, 106, 177, 263]
   \<and> upper ''iso8859_2'' = ''ISO8859_2''
   \<and> ''out.txt'' \<notin> denied (world_with zajac_bytes)
   \<and> convert_encoding (cpython_with (labelled ''Windows-1252'' 0.73)) ''in.txt'' ''out.txt''
        ''iso8859_2'' (world_with zajac_bytes) =
       (None,
        \<lparr>files = [''in.txt'' \<mapsto> zajac_bytes, ''out.txt'' \<mapsto> []], denied = {},
         stdout = [ChardetDetected ''Windows-1252'' 73, UsedFallback ''windows-1250'',
                   ErrorWriting ''out.txt'' UnicodeEncodeError],
         calls = [ReadFile ''in.txt'', Detect, Decode ''windows-1250'',
                  OpenWrite ''out.txt'', Encode ''iso8859_2'']\<rparr>)"
proof -
  let ?P = "cpython_with (labelled ''Windows-1252'' 0.73)"
  let ?w = "world_with zajac_bytes"
  have f: "files ?w ''in.txt'' = Some zajac_bytes" and nd: "''in.txt'' \<notin> denied ?w"
    and no: "''out.txt'' \<notin> denied ?w"
    by (simp_all add: world_with_def)
  have ne: "zajac_bytes \<noteq> []" by (simp add: zajac_bytes_def)
  have c: "confidence_entry (chardet_detect ?P zajac_bytes) = Some 0.73"
    and l: "dict_get (encoding_entry (chardet_detect ?P zajac_bytes)) None
              = Some ''Windows-1252''"
    by (simp_all add: cpython_with_def cpython_def labelled_def dict_get_def)
  have n0: "\<not> contains (lower ''Windows-1252'') ''utf''"
    by (simp add: lower_def lower_char_def)
  then have nu: "\<not> (truthy (Some ''Windows-1252'')
                     \<and> contains (lower (the (Some ''Windows-1252''))) ''utf'')"
    by simp
  have up: "upper ''iso8859_2'' = ''ISO8859_2''" by (simp add: upper_def upper_char_def)
  have pd: "bytes_decode ?P = py_decode unknown_decode"
    and pe: "text_encode ?P = py_encode unknown_encode"
    by (simp_all add: cpython_with_def cpython_def)
  note t = legacy_candidates_first [OF f nd ne c l nu, of "''out.txt''" "''iso8859_2''"
      "[90, 97, 106, 177, 263]" unknown_decode unknown_encode]
  note last = t [THEN conjunct2, THEN conjunct2]
  show ?thesis
    using last f nd ne c l n0 up no pd pe
    by (simp add: world_with_def truthy_def)
qed

subsection \<open>A detected UTF format comes first (C2)\<close>

text \<open>
  Claim C2. When the detector's label contains "utf" in any letter case, that label is
  the first decoder called for a non-empty input. If it decodes the input, its text is
  what is written and no other decoder is called; if it fails with a decoding error, the
  loop runs over the legacy pair followed by the label.
\<close>

theorem utf_label_tried_first:
  assumes "files w file_in = Some raw" and "file_in \<notin> denied w" and "raw \<noteq> []"
    and "confidence_entry (chardet_detect P raw) = Some c"
    and "encoding_entry (chardet_detect P raw) = Some (Some d)"
    and "contains (lower d) ''utf''"
  shows "(bytes_decode P d raw = Inr t \<longrightarrow>
            convert_encoding P file_in file_out target_format w =
              (None, write_output P file_out (upper target_format) t
                 (w\<lparr>calls := calls w @ [ReadFile file_in, Detect, Decode d],
                    stdout := stdout w @
                      [ChardetDetected d (c * 100), DecodedUnicode d]\<rparr>)))
       \<and> (bytes_decode P d raw = Inl UnicodeDecodeError \<longrightarrow>
            convert_encoding P file_in file_out target_format w =
              conclude P file_out (upper target_format)
                (try_encodings P raw (Some d) [''windows-1250'', ''iso8859_2'', d]
                   (w\<lparr>calls := calls w @ [ReadFile file_in, Detect, Decode d],
                      stdout := stdout w @ [ChardetDetected d (c * 100)]\<rparr>)))"
proof -
  have det: "dict_get (encoding_entry (chardet_detect P raw)) None = Some d"
    using assms(5) by (simp add: dict_get_def)
  have start: "convert_encoding P file_in file_out target_format w =
           conclude P file_out (upper target_format)
             (decode_stage P raw (Some d) (detected_world w file_in (Some d) c))"
    by (rule convert_encoding_started [OF assms(1-4) det])
  have ne: "d \<noteq> []" by (rule utf_label_not_priority(3) [OF assms(6)])
  show ?thesis
  proof (intro conjI impI)
    assume ok: "bytes_decode P d raw = Inr t"
    show "convert_encoding P file_in file_out target_format w =
              (None, write_output P file_out (upper target_format) t
                 (w\<lparr>calls := calls w @ [ReadFile file_in, Detect, Decode d],
                    stdout := stdout w @
                      [ChardetDetected d (c * 100), DecodedUnicode d]\<rparr>))"
      using start ne
      by (simp add: decode_stage_utf_ok [OF assms(6) ok] conclude_def detected_world_def
          truthy_def print_msg_def)
  next
    assume fail: "bytes_decode P d raw = Inl UnicodeDecodeError"
    show "convert_encoding P file_in file_out target_format w =
              conclude P file_out (upper target_format)
                (try_encodings P raw (Some d) [''windows-1250'', ''iso8859_2'', d]
                   (w\<lparr>calls := calls w @ [ReadFile file_in, Detect, Decode d],
                      stdout := stdout w @ [ChardetDetected d (c * 100)]\<rparr>))"
      using start ne
      by (simp add: decode_stage_utf_fail [OF assms(6) fail] detected_world_def truthy_def
          world_update_order del: try_encodings.simps)
  qed
qed

theorem utf_label_tried_first_witness:
  "files (world_with [0xC4, 0x85]) ''in.txt'' = Some [0xC4, 0x85]
   \<and> ''in.txt'' \<notin> denied (world_with [0xC4, 0x85])
   \<and> [0xC4, 0x85 :: byte] \<noteq> []
   \<and> confidence_entry (chardet_detect (cpython_with (labelled ''utf-8'' 0.5)) [0xC4, 0x85])
        = Some 0.5
   \<and> encoding_entry (chardet_detect (cpython_with (labelled ''utf-8'' 0.5)) [0xC4, 0x85])
        = Some (Some ''utf-8'')
   \<and> contains (lower ''utf-8'') ''utf''
   \<and> bytes_decode (cpython_with (labelled ''utf-8'' 0.5)) ''utf-8'' [0xC4, 0x85] = Inr [261]
   \<and> convert_encoding (cpython_with (labelled ''utf-8'' 0.5)) ''in.txt'' ''out.txt'' ''ansi''
        (world_with [0xC4, 0x85]) =
       (None,
        \<lparr>files = [''in.txt'' \<mapsto> [0xC4, 0x85], ''out.txt'' \<mapsto> [0xB9]], denied = {},
         stdout = [ChardetDetected ''utf-8'' 50, DecodedUnicode ''utf-8'',
                   Saved ''out.txt'' ''ANSI''],
         calls = [ReadFile ''in.txt'', Detect, Decode ''utf-8'', OpenWrite ''out.txt'',
                  Encode ''cp1250'']\<rparr>)
   \<and> files (world_with [0x61, 0xC4]) ''in.txt'' = Some [0x61, 0xC4]
   \<and> bytes_decode (cpython_with (labelled ''utf-8'' 0.5)) ''utf-8'' [0x61, 0xC4]
        = Inl UnicodeDecodeError
   \<and> convert_encoding (cpython_with (labelled ''utf-8'' 0.5)) ''in.txt'' ''out.txt'' ''utf8''
        (world_with [0x61, 0xC4]) =
       (None,
        \<lparr>files = [''in.txt'' \<mapsto> [0x61, 0xC4], ''out.txt'' \<mapsto> [0x61, 0xC3, 0x84]],
         denied = {},
         stdout = [ChardetDetected ''utf-8'' 50, UsedFallback ''windows-1250'',
                   Saved ''out.txt'' ''UTF8''],
         calls = [ReadFile ''in.txt'', Detect, Decode ''utf-8'', Decode ''windows-1250'',
                  OpenWrite ''out.txt'', Encode ''utf-8'']\<rparr>)"
proof -
  let ?P = "cpython_with (labelled ''utf-8'' 0.5)"
  have u: "contains (lower ''utf-8'') ''utf''"
    by (simp add: lower_def lower_char_def)
  have ok: "bytes_decode ?P ''utf-8'' [0xC4, 0x85] = Inr [261]"
    by (simp add: platform_simps is_cont_def cont_bits_def)
  have bad: "bytes_decode ?P ''utf-8'' [0x61, 0xC4] = Inl UnicodeDecodeError"
    by (simp add: platform_simps is_cont_def cont_bits_def)
  have fb: "bytes_decode ?P ''windows-1250'' [0x61, 0xC4] = Inr [97, 196]"
    by (simp add: platform_simps charmap_decode_byte_def cp1250_high_def)
  have e1: "text_encode ?P ''cp1250'' [261] = Inr [0xB9]"
    by (simp add: platform_simps charmap_encode_char_def cp1250_high_def)
  have e2: "text_encode ?P ''utf-8'' [97, 196] = Inr [0x61, 0xC3, 0x84]"
    by (simp add: platform_simps utf8_encode_char_def)
  have up: "upper ''ansi'' = ''ANSI''" "upper ''utf8'' = ''UTF8''"
    by (simp_all add: upper_def upper_char_def)
  have c: "confidence_entry (chardet_detect ?P raw) = Some (1 / 2)" for raw
    by (simp add: cpython_with_def cpython_def labelled_def)
  have l: "encoding_entry (chardet_detect ?P raw) = Some (Some ''utf-8'')" for raw
    by (simp add: cpython_with_def cpython_def labelled_def)
  have f1: "files (world_with [0xC4, 0x85]) ''in.txt'' = Some [0xC4, 0x85]"
    and f2: "files (world_with [0x61, 0xC4]) ''in.txt'' = Some [0x61, 0xC4]"
    and nd: "''in.txt'' \<notin> denied (world_with raw)" for raw
    by (simp_all add: world_with_def)
  note a = utf_label_tried_first [OF f1 nd _ c l u, of "[261]" "''out.txt''" "''ansi''"]
  note b = utf_label_tried_first [OF f2 nd _ c l u, of "[]" "''out.txt''" "''utf8''"]
  show ?thesis
    using a b u ok bad fb e1 e2 up c l
    by (simp add: world_with_def write_output_def conclude_def
        SUPPORTED_FORMATS_def open_write_def record_call_def print_msg_def)
qed

subsection \<open>The first success wins (C3)\<close>

text \<open>
  Claim C3. The loop over a candidate list stops at the first candidate that decodes:
  when the candidates before \<open>enc\<close> fail and \<open>enc\<close> decodes the input to \<open>t\<close>,
  the loop returns \<open>t\<close>, the decoders called are exactly those candidates and \<open>enc\<close>
  in order, and no candidate after \<open>enc\<close> is called. In a conversion without a UTF label
  the text handed to the writing step is that first successful decoding.
\<close>

theorem first_success_wins:
  assumes "\<forall>p\<in>set pre. bytes_decode P p raw = Inl UnicodeDecodeError
                        \<or> bytes_decode P p raw = Inl TypeError"
    and "bytes_decode P enc raw = Inr t"
  shows "try_encodings P raw det (pre @ enc # post) w =
           (Inr (Some t),
            w\<lparr>calls := calls w @ map Decode (pre @ [enc]),
              stdout := stdout w @
                [if Some enc \<noteq> det then UsedFallback enc else DecodedUsing enc]\<rparr>)
         \<and> (files w file_in = Some raw \<and> file_in \<notin> denied w \<and> raw \<noteq> []
              \<and> confidence_entry (chardet_detect P raw) = Some c
              \<and> dict_get (encoding_entry (chardet_detect P raw)) None = det
              \<and> \<not> (truthy det \<and> contains (lower (the det)) ''utf'')
              \<and> encodings_to_try det = pre @ enc # post
            \<longrightarrow> convert_encoding P file_in file_out target_format w =
                  (None, write_output P file_out (upper target_format) t
                     (w\<lparr>calls := calls w @ [ReadFile file_in, Detect]
                                  @ map Decode (pre @ [enc]),
                        stdout := stdout w @
                          [ChardetDetected (if truthy det then the det else ''unknown'')
                             (c * 100),
                           if Some enc \<noteq> det then UsedFallback enc
                           else DecodedUsing enc]\<rparr>)))"
proof -
  have loop: "try_encodings P raw det (pre @ enc # post) v =
           (Inr (Some t),
            v\<lparr>calls := calls v @ map Decode (pre @ [enc]),
              stdout := stdout v @
                [if Some enc \<noteq> det then UsedFallback enc else DecodedUsing enc]\<rparr>)" for v
    using try_encodings_first_success [OF assms] by (simp add: print_msg_def)
  show ?thesis
  proof (intro conjI impI)
    show "try_encodings P raw det (pre @ enc # post) w =
           (Inr (Some t),
            w\<lparr>calls := calls w @ map Decode (pre @ [enc]),
              stdout := stdout w @
                [if Some enc \<noteq> det then UsedFallback enc else DecodedUsing enc]\<rparr>)"
      by (rule loop)
  next
    assume h: "files w file_in = Some raw \<and> file_in \<notin> denied w \<and> raw \<noteq> []
              \<and> confidence_entry (chardet_detect P raw) = Some c
              \<and> dict_get (encoding_entry (chardet_detect P raw)) None = det
              \<and> \<not> (truthy det \<and> contains (lower (the det)) ''utf'')
              \<and> encodings_to_try det = pre @ enc # post"
    then have "convert_encoding P file_in file_out target_format w =
           conclude P file_out (upper target_format)
             (decode_stage P raw det
                (w\<lparr>calls := calls w @ [ReadFile file_in, Detect],
                   stdout := stdout w @
                     [ChardetDetected (if truthy det then the det else ''unknown'')
                        (c * 100)]\<rparr>))"
      using convert_encoding_nonempty [of w file_in raw P c file_out target_format] by auto
    also have "decode_stage P raw det
                (w\<lparr>calls := calls w @ [ReadFile file_in, Detect],
                   stdout := stdout w @
                     [ChardetDetected (if truthy det then the det else ''unknown'')
                        (c * 100)]\<rparr>) =
            try_encodings P raw det (pre @ enc # post)
                (w\<lparr>calls := calls w @ [ReadFile file_in, Detect],
                   stdout := stdout w @
                     [ChardetDetected (if truthy det then the det else ''unknown'')
                        (c * 100)]\<rparr>)"
      using h decode_stage_no_utf [of det P raw] by simp
    finally show "convert_encoding P file_in file_out target_format w =
                  (None, write_output P file_out (upper target_format) t
                     (w\<lparr>calls := calls w @ [ReadFile file_in, Detect]
                                  @ map Decode (pre @ [enc]),
                        stdout := stdout w @
                          [ChardetDetected (if truthy det then the det else ''unknown'')
                             (c * 100),
                           if Some enc \<noteq> det then UsedFallback enc
                           else DecodedUsing enc]\<rparr>))"
      by (simp add: loop conclude_def)
  qed
qed

theorem first_success_wins_witness:
  "bytes_decode (cpython_with (labelled ''ISO-8859-1'' 0.73)) ''windows-1250'' [0x61, 0x81]
        = Inl UnicodeDecodeError
   \<and> bytes_decode (cpython_with (labelled ''ISO-8859-1'' 0.73)) ''iso8859_2'' [0x61, 0x81]
        = Inr [97, 129]
   \<and> try_encodings (cpython_with (labelled ''ISO-8859-1'' 0.73)) [0x61, 0x81]
        (Some ''ISO-8859-1'') [''windows-1250'', ''iso8859_2'', ''ISO-8859-1'']
        (world_with [0x61, 0x81]) =
       (Inr (Some [97, 129]),
        \<lparr>files = [''in.txt'' \<mapsto> [0x61, 0x81]], denied = {},
         stdout = [UsedFallback ''iso8859_2''],
         calls = [Decode ''windows-1250'', Decode ''iso8859_2'']\<rparr>)
   \<and> encodings_to_try (Some ''ISO-8859-1'') = [''windows-1250''] @ ''iso8859_2'' # [''ISO-8859-1'']
   \<and> \<not> contains (lower ''ISO-8859-1'') ''utf''
   \<and> convert_encoding (cpython_with (labelled ''ISO-8859-1'' 0.73)) ''in.txt'' ''out.txt''
        ''utf8'' (world_with [0x61, 0x81]) =
       (None,
        \<lparr>files = [''in.txt'' \<mapsto> [0x61, 0x81], ''out.txt'' \<mapsto> [0x61, 0xC2, 0x81]],
         denied = {},
         stdout = [ChardetDetected ''ISO-8859-1'' 73, UsedFallback ''iso8859_2'',
                   Saved ''out.txt'' ''UTF8''],
         calls = [ReadFile ''in.txt'', Detect, Decode ''windows-1250'', Decode ''iso8859_2'',
                  OpenWrite ''out.txt'', Encode ''utf-8'']\<rparr>)
   \<and> bytes_decode (cpython_with (labelled ''ascii'' 1)) ''windows-1250'' [0x61, 0x62, 0x63]
        = Inr [97, 98, 99]
   \<and> bytes_decode (cpython_with (labelled ''ascii'' 1)) ''iso8859_2'' [0x61, 0x62, 0x63]
        = Inr [97, 98, 99]
   \<and> convert_encoding (cpython_with (labelled ''ascii'' 1)) ''in.txt'' ''out.txt''
        ''utf16le'' (world_with [0x61, 0x62, 0x63]) =
       (None,
        \<lparr>files = [''in.txt'' \<mapsto> [0x61, 0x62, 0x63],
                  ''out.txt'' \<mapsto> [0x61, 0x00, 0x62, 0x00, 0x63, 0x00]],
         denied = {},
         stdout = [ChardetDetected ''ascii'' 100, UsedFallback ''windows-1250'',
                   Saved ''out.txt'' ''UTF16LE''],
         calls = [ReadFile ''in.txt'', Detect, Decode ''windows-1250'',
                  OpenWrite ''out.txt'', Encode ''utf-16-le'']\<rparr>)"
proof -
  let ?P = "cpython_with (labelled ''ISO-8859-1'' 0.73)"
  let ?Q = "cpython_with (labelled ''ascii'' 1)"
  have f0: "bytes_decode ?P ''windows-1250'' [0x61, 0x81] = Inl UnicodeDecodeError"
    by (simp add: platform_simps charmap_decode_byte_def cp1250_high_def)
  then have f: "\<forall>p\<in>set [''windows-1250''].
       bytes_decode ?P p [0x61, 0x81] = Inl UnicodeDecodeError
       \<or> bytes_decode ?P p [0x61, 0x81] = Inl TypeError"
    by simp
  have s: "bytes_decode ?P ''iso8859_2'' [0x61, 0x81] = Inr [97, 129]"
    by (simp add: platform_simps charmap_decode_byte_def iso8859_2_high_def)
  have e: "encodings_to_try (Some ''ISO-8859-1'') = [''windows-1250''] @ ''iso8859_2'' # [''ISO-8859-1'']"
    by (simp add: encodings_to_try_def truthy_def)
  have n: "\<not> contains (lower ''ISO-8859-1'') ''utf''"
    by (simp add: lower_def lower_char_def)
  have u: "upper ''utf8'' = ''UTF8''" by (simp add: upper_def upper_char_def)
  have enc: "text_encode ?P ''utf-8'' [97, 129] = Inr [0x61, 0xC2, 0x81]"
    by (simp add: platform_simps utf8_encode_char_def)
  have g: "\<forall>p\<in>set []. bytes_decode ?Q p [0x61, 0x62, 0x63] = Inl UnicodeDecodeError
       \<or> bytes_decode ?Q p [0x61, 0x62, 0x63] = Inl TypeError"
    by simp
  have a1: "bytes_decode ?Q ''windows-1250'' [0x61, 0x62, 0x63] = Inr [97, 98, 99]"
    by (simp add: platform_simps charmap_decode_byte_def)
  have a2: "bytes_decode ?Q ''iso8859_2'' [0x61, 0x62, 0x63] = Inr [97, 98, 99]"
    by (simp add: platform_simps charmap_decode_byte_def)
  have ea: "encodings_to_try (Some ''ascii'') = [] @ ''windows-1250'' # [''iso8859_2'', ''ascii'']"
    by (simp add: encodings_to_try_def truthy_def)
  have na: "\<not> contains (lower ''ascii'') ''utf''"
    by (simp add: lower_def lower_char_def)
  have ua: "upper ''utf16le'' = ''UTF16LE''" by (simp add: upper_def upper_char_def)
  have enca: "text_encode ?Q ''utf-16-le'' [97, 98, 99] = Inr [0x61, 0x00, 0x62, 0x00, 0x63, 0x00]"
    by (simp add: platform_simps utf16_encode_char_def unit_bytes_def)
  note t1 = first_success_wins [OF f s, of "Some ''ISO-8859-1''" "[''ISO-8859-1'']"
        "world_with [0x61, 0x81]" "''in.txt''" "73 / 100" "''out.txt''" "''utf8''"]
  note t2 = first_success_wins [OF g a1, of "Some ''ascii''" "[''iso8859_2'', ''ascii'']"
        "world_with [0x61, 0x62, 0x63]" "''in.txt''" "1" "''out.txt''" "''utf16le''",
        THEN conjunct2]
  have r1: "try_encodings ?P [0x61, 0x81]
        (Some ''ISO-8859-1'') [''windows-1250'', ''iso8859_2'', ''ISO-8859-1'']
        (world_with [0x61, 0x81]) =
       (Inr (Some [97, 129]),
        \<lparr>files = [''in.txt'' \<mapsto> [0x61, 0x81]], denied = {},
         stdout = [UsedFallback ''iso8859_2''],
         calls = [Decode ''windows-1250'', Decode ''iso8859_2'']\<rparr>)
     \<and> convert_encoding ?P ''in.txt'' ''out.txt'' ''utf8'' (world_with [0x61, 0x81]) =
       (None,
        \<lparr>files = [''in.txt'' \<mapsto> [0x61, 0x81], ''out.txt'' \<mapsto> [0x61, 0xC2, 0x81]],
         denied = {},
         stdout = [ChardetDetected ''ISO-8859-1'' 73, UsedFallback ''iso8859_2'',
                   Saved ''out.txt'' ''UTF8''],
         calls = [ReadFile ''in.txt'', Detect, Decode ''windows-1250'', Decode ''iso8859_2'',
                  OpenWrite ''out.txt'', Encode ''utf-8'']\<rparr>)"
    using t1 f0 s e n u enc
    by (simp add: world_with_def cpython_with_def cpython_def labelled_def dict_get_def
        truthy_def write_output_def SUPPORTED_FORMATS_def open_write_def record_call_def
        print_msg_def)
  have r2: "convert_encoding ?Q ''in.txt'' ''out.txt'' ''utf16le''
        (world_with [0x61, 0x62, 0x63]) =
       (None,
        \<lparr>files = [''in.txt'' \<mapsto> [0x61, 0x62, 0x63],
                  ''out.txt'' \<mapsto> [0x61, 0x00, 0x62, 0x00, 0x63, 0x00]],
         denied = {},
         stdout = [ChardetDetected ''ascii'' 100, UsedFallback ''windows-1250'',
                   Saved ''out.txt'' ''UTF16LE''],
         calls = [ReadFile ''in.txt'', Detect, Decode ''windows-1250'',
                  OpenWrite ''out.txt'', Encode ''utf-16-le'']\<rparr>)"
    using t2 a1 ea na ua enca
    by (simp add: world_with_def cpython_with_def cpython_def labelled_def dict_get_def
        truthy_def write_output_def SUPPORTED_FORMATS_def open_write_def record_call_def
        print_msg_def)
  show ?thesis using r1 r2 f0 s e n a1 a2 by simp
qed

subsection \<open>Total failure (C4)\<close>

text \<open>
  Claim C4. When the input is not empty and every candidate of the full list (the
  legacy pair and the detector's label) fails to decode, the conversion prints that all
  decoding attempts failed and returns: the files are those before the call, and the
  calls made are the read, the detection and the decoding attempts, so the output path
  was never opened.
\<close>

theorem total_failure_leaves_output_untouched:
  assumes "files w file_in = Some raw" and "file_in \<notin> denied w" and "raw \<noteq> []"
    and "confidence_entry (chardet_detect P raw) = Some c"
    and "dict_get (encoding_entry (chardet_detect P raw)) None = det"
    and "\<forall>enc\<in>set (encodings_to_try det). bytes_decode P enc raw = Inl UnicodeDecodeError"
  shows "convert_encoding P file_in file_out target_format w =
           (None,
            w\<lparr>calls := calls w @ [ReadFile file_in, Detect]
                  @ map Decode ((if truthy det \<and> contains (lower (the det)) ''utf''
                                 then [the det] else []) @ encodings_to_try det),
              stdout := stdout w @
                [ChardetDetected (if truthy det then the det else ''unknown'') (c * 100),
                 AllDecodingFailed]\<rparr>)"
proof -
  have all: "\<forall>p\<in>set (encodings_to_try det). bytes_decode P p raw = Inl UnicodeDecodeError
                        \<or> bytes_decode P p raw = Inl TypeError"
    using assms(6) by simp
  have start: "convert_encoding P file_in file_out target_format w =
           conclude P file_out (upper target_format)
             (decode_stage P raw det (detected_world w file_in det c))"
    by (rule convert_encoding_started [OF assms(1-5)])
  show ?thesis
  proof (cases "truthy det \<and> contains (lower (the det)) ''utf''")
    case False
    then show ?thesis
      using start try_encodings_all_fail [OF all]
      by (simp add: decode_stage_no_utf conclude_failed detected_world_def)
  next
    case True
    then obtain d where d: "det = Some d" "contains (lower d) ''utf''"
      by (cases det) (auto simp: truthy_def)
    have "d \<in> set (encodings_to_try det)"
      using d encodings_to_try_utf [OF d(2)] by simp
    then have "bytes_decode P d raw = Inl UnicodeDecodeError"
      using assms(6) by simp
    then show ?thesis
      using start d True try_encodings_all_fail [OF all] encodings_to_try_utf [OF d(2)]
      by (simp add: decode_stage_utf_fail conclude_failed detected_world_def)
  qed
qed

theorem total_failure_leaves_output_untouched_witness:
  "files (world_with [0x81]) ''in.txt'' = Some [0x81]
   \<and> ''in.txt'' \<notin> denied (world_with [0x81])
   \<and> [0x81 :: byte] \<noteq> []
   \<and> confidence_entry (chardet_detect (rejecting_platform (labelled ''EUC-TW'' 0.5)) [0x81])
        = Some 0.5
   \<and> dict_get (encoding_entry (chardet_detect (rejecting_platform (labelled ''EUC-TW'' 0.5))
        [0x81])) None = Some ''EUC-TW''
   \<and> encodings_to_try (Some ''EUC-TW'') = [''windows-1250'', ''iso8859_2'', ''EUC-TW'']
   \<and> bytes_decode (rejecting_platform (labelled ''EUC-TW'' 0.5)) ''windows-1250'' [0x81]
        = Inl UnicodeDecodeError
   \<and> bytes_decode (rejecting_platform (labelled ''EUC-TW'' 0.5)) ''iso8859_2'' [0x81]
        = Inl UnicodeDecodeError
   \<and> bytes_decode (rejecting_platform (labelled ''EUC-TW'' 0.5)) ''EUC-TW'' [0x81]
        = Inl UnicodeDecodeError
   \<and> convert_encoding (rejecting_platform (labelled ''EUC-TW'' 0.5)) ''in.txt'' ''out.txt''
        ''UTF8'' (world_with [0x81]) =
       (None,
        \<lparr>files = [''in.txt'' \<mapsto> [0x81]], denied = {},
         stdout = [ChardetDetected ''EUC-TW'' 50, AllDecodingFailed],
         calls = [ReadFile ''in.txt'', Detect, Decode ''windows-1250'', Decode ''iso8859_2'',
                  Decode ''EUC-TW'']\<rparr>)"
proof -
  let ?P = "rejecting_platform (labelled ''EUC-TW'' 0.5)"
  have a: "\<forall>enc\<in>set (encodings_to_try (Some ''EUC-TW'')).
         bytes_decode ?P enc [0x81] = Inl UnicodeDecodeError"
    by (simp add: rejecting_platform_def)
  have n: "\<not> contains (lower ''EUC-TW'') ''utf''"
    by (simp add: lower_def lower_char_def)
  have e: "encodings_to_try (Some ''EUC-TW'') = [''windows-1250'', ''iso8859_2'', ''EUC-TW'']"
    by (simp add: encodings_to_try_def truthy_def)
  show ?thesis
    using total_failure_leaves_output_untouched [of "world_with [0x81]" "''in.txt''" "[0x81]"
        ?P "1 / 2" "Some ''EUC-TW''" "''out.txt''" "''UTF8''"] a n e
    by (simp add: world_with_def rejecting_platform_def labelled_def dict_get_def truthy_def)
qed

subsection \<open>Empty input (C5)\<close>

text \<open>
  Claim C5. For every target format, converting a readable zero-byte input returns
  normally with the message that an empty file was created: the output path then holds
  zero bytes, and the only calls made are the read of the input and the opening of the
  output; the detector and the decoders are not called.
\<close>

theorem empty_input_written:
  assumes "files w file_in = Some []" and "file_in \<notin> denied w" and "file_out \<notin> denied w"
  shows "convert_encoding P file_in file_out target_format w =
           (None, w\<lparr>files := (files w)(file_out \<mapsto> []),
                    stdout := stdout w @ [CreatedEmpty file_out (upper target_format)],
                    calls := calls w @ [ReadFile file_in, OpenWrite file_out]\<rparr>)"
  using assms
  by (simp add: convert_encoding_def read_file_ok open_write_def record_call_def
      print_msg_def Let_def)

theorem empty_input_written_witness:
  "files (world_with []) ''in.txt'' = Some []
   \<and> ''in.txt'' \<notin> denied (world_with [])
   \<and> ''out.txt'' \<notin> denied (world_with [])
   \<and> convert_encoding (cpython_with no_label) ''in.txt'' ''out.txt'' ''utf16le'' (world_with []) =
       (None, \<lparr>files = [''in.txt'' \<mapsto> [], ''out.txt'' \<mapsto> []], denied = {},
               stdout = [CreatedEmpty ''out.txt'' ''UTF16LE''],
               calls = [ReadFile ''in.txt'', OpenWrite ''out.txt'']\<rparr>)"
  using empty_input_written [of "world_with []" "''in.txt''" "''out.txt''"
      "cpython_with no_label" "''utf16le''"]
  by (simp add: world_with_def upper_def upper_char_def)

subsection \<open>Unsupported target formats (C6)\<close>

text \<open>
  Claim C6 fails for \<^verbatim>\<open>convert_encoding\<close>: called with the unsupported format
  \<^verbatim>\<open>FOO\<close> on an empty input it reads the input, creates the output file and reports
  success.
\<close>

theorem unknown_format_reaches_file_access:
  "SUPPORTED_FORMATS (upper ''FOO'') = None
   \<and> convert_encoding (cpython_with no_label) ''in.txt'' ''out.txt'' ''FOO'' (world_with []) =
       (None,
        \<lparr>files = [''in.txt'' \<mapsto> [], ''out.txt'' \<mapsto> []], denied = {},
         stdout = [CreatedEmpty ''out.txt'' ''FOO''],
         calls = [ReadFile ''in.txt'', OpenWrite ''out.txt'']\<rparr>)"
  by (simp add: SUPPORTED_FORMATS_def upper_def upper_char_def convert_encoding_def
      read_file_def open_write_def record_call_def print_msg_def world_with_def)

text \<open>
  Claim C6, amended. A format outside the supported set is rejected before any file
  access by \<^verbatim>\<open>main\<close>, which prints the error and exits with status 1.
  \<^verbatim>\<open>convert_encoding\<close> itself does not check the format first: it always reads the
  input file; for an empty input it creates the empty output file and reports success;
  for a non-empty input it leaves every file as it was, and when the input decodes it
  reports the missing format (\<^verbatim>\<open>KeyError\<close>) as a write error.
\<close>

theorem unknown_format_rejected_by_main:
  assumes "SUPPORTED_FORMATS (upper f) = None"
  shows "(arg_format a = Some f \<and> f \<noteq> [] \<and> \<not> arg_help a \<longrightarrow>
            main P others a w =
              (Some SystemExit,
               w\<lparr>stdout := stdout w @ [InvalidFormat f, SupportedFormatsAre]\<rparr>))
       \<and> ReadFile file_in \<in> set (calls (snd (convert_encoding P file_in file_out f w)))
       \<and> (files w file_in = Some [] \<and> file_in \<notin> denied w \<and> file_out \<notin> denied w \<longrightarrow>
            convert_encoding P file_in file_out f w =
              (None, w\<lparr>files := (files w)(file_out \<mapsto> []),
                       stdout := stdout w @ [CreatedEmpty file_out (upper f)],
                       calls := calls w @ [ReadFile file_in, OpenWrite file_out]\<rparr>))
       \<and> (files w file_in = Some raw \<and> file_in \<notin> denied w \<and> raw \<noteq> [] \<longrightarrow>
            files (snd (convert_encoding P file_in file_out f w)) = files w)
       \<and> (files w file_in = Some raw \<and> file_in \<notin> denied w \<and> raw \<noteq> []
            \<and> confidence_entry (chardet_detect P raw) = Some c
            \<and> dict_get (encoding_entry (chardet_detect P raw)) None = det
            \<and> decode_stage P raw det (detected_world w file_in det c) = (Inr (Some t), w4)
          \<longrightarrow> convert_encoding P file_in file_out f w =
                (None, w4\<lparr>stdout := stdout w4 @ [ErrorWriting file_out KeyError]\<rparr>))"
proof (intro conjI impI)
  assume h: "arg_format a = Some f \<and> f \<noteq> [] \<and> \<not> arg_help a"
  then have "main_action a = InvalidFormatExit"
    using assms by (simp add: main_action_def truthy_def)
  then show "main P others a w =
              (Some SystemExit,
               w\<lparr>stdout := stdout w @ [InvalidFormat f, SupportedFormatsAre]\<rparr>)"
    using h by (simp add: main_def print_msg_def)
next
  show "ReadFile file_in \<in> set (calls (snd (convert_encoding P file_in file_out f w)))"
    by (rule convert_encoding_reads_first)
next
  assume "files w file_in = Some [] \<and> file_in \<notin> denied w \<and> file_out \<notin> denied w"
  then show "convert_encoding P file_in file_out f w =
              (None, w\<lparr>files := (files w)(file_out \<mapsto> []),
                       stdout := stdout w @ [CreatedEmpty file_out (upper f)],
                       calls := calls w @ [ReadFile file_in, OpenWrite file_out]\<rparr>)"
    by (simp add: convert_encoding_def read_file_ok open_write_def record_call_def
        print_msg_def Let_def)
next
  assume "files w file_in = Some raw \<and> file_in \<notin> denied w \<and> raw \<noteq> []"
  then show "files (snd (convert_encoding P file_in file_out f w)) = files w"
    using convert_encoding_unknown_format_files [OF assms] by simp
next
  assume h: "files w file_in = Some raw \<and> file_in \<notin> denied w \<and> raw \<noteq> []
            \<and> confidence_entry (chardet_detect P raw) = Some c
            \<and> dict_get (encoding_entry (chardet_detect P raw)) None = det
            \<and> decode_stage P raw det (detected_world w file_in det c) = (Inr (Some t), w4)"
  then have "convert_encoding P file_in file_out f w =
           conclude P file_out (upper f)
             (decode_stage P raw det (detected_world w file_in det c))"
    using convert_encoding_started [of w file_in raw P c det file_out f] by simp
  then show "convert_encoding P file_in file_out f w =
                (None, w4\<lparr>stdout := stdout w4 @ [ErrorWriting file_out KeyError]\<rparr>)"
    using h assms by (simp add: conclude_def write_output_def print_msg_def)
qed

theorem unknown_format_rejected_by_main_witness:
  "SUPPORTED_FORMATS (upper ''foo'') = None
   \<and> main (cpython_with no_label) (\<lambda>act a w. (None, w)) (convert_args ''foo'')
        (world_with [0x61]) =
       (Some SystemExit,
        \<lparr>files = [''in.txt'' \<mapsto> [0x61]], denied = {},
         stdout = [InvalidFormat ''foo'', SupportedFormatsAre], calls = []\<rparr>)
   \<and> ReadFile ''in.txt''
        \<in> set (calls (snd (convert_encoding (cpython_with no_label) ''in.txt'' ''out.txt''
                   ''foo'' (world_with [0x61]))))
   \<and> convert_encoding (cpython_with no_label) ''in.txt'' ''out.txt'' ''foo'' (world_with []) =
       (None,
        \<lparr>files = [''in.txt'' \<mapsto> [], ''out.txt'' \<mapsto> []], denied = {},
         stdout = [CreatedEmpty ''out.txt'' ''FOO''],
         calls = [ReadFile ''in.txt'', OpenWrite ''out.txt'']\<rparr>)
   \<and> files (snd (convert_encoding (cpython_with no_label) ''in.txt'' ''out.txt'' ''foo''
                   (world_with [0x61]))) = [''in.txt'' \<mapsto> [0x61]]
   \<and> convert_encoding (cpython_with no_label) ''in.txt'' ''out.txt'' ''foo''
        (world_with [0x61]) =
       (None,
        \<lparr>files = [''in.txt'' \<mapsto> [0x61]], denied = {},
         stdout = [ChardetDetected ''unknown'' 0, UsedFallback ''windows-1250'',
                   ErrorWriting ''out.txt'' KeyError],
         calls = [ReadFile ''in.txt'', Detect, Decode ''windows-1250'']\<rparr>)"
proof -
  let ?P = "cpython_with no_label"
  have sf: "SUPPORTED_FORMATS (upper ''foo'') = None"
    by (simp add: SUPPORTED_FORMATS_def upper_def upper_char_def)
  have up: "upper ''foo'' = ''FOO''" by (simp add: upper_def upper_char_def)
  have c: "confidence_entry (chardet_detect ?P raw) = Some 0"
    and l: "dict_get (encoding_entry (chardet_detect ?P raw)) None = None" for raw
    by (simp_all add: cpython_with_def cpython_def no_label_def dict_get_def)
  have dec: "bytes_decode ?P ''windows-1250'' [0x61] = Inr [97]"
    by (simp add: platform_simps charmap_decode_byte_def)
  have st: "decode_stage ?P [0x61] None (detected_world (world_with [0x61]) ''in.txt'' None 0) =
       (Inr (Some [97]),
        \<lparr>files = [''in.txt'' \<mapsto> [0x61]], denied = {},
         stdout = [ChardetDetected ''unknown'' 0, UsedFallback ''windows-1250''],
         calls = [ReadFile ''in.txt'', Detect, Decode ''windows-1250'']\<rparr>)"
    using dec
    by (simp add: decode_stage_def trust_utf_def encodings_to_try_def truthy_def
        detected_world_def world_with_def record_call_def print_msg_def)
  note t1 = unknown_format_rejected_by_main [OF sf, of "convert_args ''foo''" ?P
      "\<lambda>act a w. (None, w)" "world_with [0x61]" "''in.txt''" "''out.txt''" "[0x61]" 0 None
      "[97]"]
  note t2 = unknown_format_rejected_by_main [OF sf, of "convert_args ''foo''" ?P
      "\<lambda>act a w. (None, w)" "world_with []" "''in.txt''" "''out.txt''" "[]" 0 None "[]"]
  show ?thesis
    using t1 t2 sf up c l st
    by (simp add: world_with_def convert_args_def)
qed

subsection \<open>Round trip (C7)\<close>

text \<open>
  Claim C7. For a text of ASCII characters and Polish letters with diacritics, and for
  each of the seven supported formats, encoding the text with the format's codec
  succeeds, and decoding the bytes with the same codec gives the text back.
\<close>

theorem supported_codecs_round_trip:
  assumes "SUPPORTED_FORMATS F = Some name"
    and "\<forall>c\<in>set t. c < 128 \<or> c \<in> set polish_diacritics"
  shows "\<exists>bs. py_encode other_encode name t = Inr bs
              \<and> py_decode other_decode name bs = Inr t"
proof -
  have cp: "\<exists>bs. charmap_encode cp1250_high t = Some bs
                 \<and> charmap_decode cp1250_high bs = Some t"
    using assms(2) by (intro charmap_round_trip cp1250_char_round_trip) simp
  have iso: "\<exists>bs. charmap_encode iso8859_2_high t = Some bs
                  \<and> charmap_decode iso8859_2_high bs = Some t"
    using assms(2) by (intro charmap_round_trip iso8859_2_char_round_trip) simp
  note u8 = utf8_round_trip [OF assms(2)]
  note sig = utf8_sig_round_trip [OF assms(2)]
  note le = utf16_round_trip [OF assms(2), of False]
  note be = utf16_round_trip [OF assms(2), of True]
  from supported_codec_names [OF assms(1)] show ?thesis
  proof (elim disjE)
    assume "name = ''utf-8''"
    then show ?thesis using u8 by (auto simp: py_encode_def py_decode_def codec_of_name_def)
  next
    assume "name = ''utf-8-sig''"
    then show ?thesis using sig by (auto simp: py_encode_def py_decode_def codec_of_name_def)
  next
    assume "name = ''cp1250''"
    then show ?thesis using cp by (auto simp: py_encode_def py_decode_def codec_of_name_def)
  next
    assume "name = ''iso8859_2''"
    then show ?thesis using iso by (auto simp: py_encode_def py_decode_def codec_of_name_def)
  next
    assume "name = ''utf-16-le''"
    then show ?thesis using le by (auto simp: py_encode_def py_decode_def codec_of_name_def)
  next
    assume "name = ''utf-16-be''"
    then show ?thesis using be by (auto simp: py_encode_def py_decode_def codec_of_name_def)
  qed
qed

theorem supported_codecs_round_trip_witness:
  "SUPPORTED_FORMATS ''ANSI'' = Some ''cp1250''
   \<and> set [90, 261, 281, 380] \<subseteq> {c. c < 128} \<union> set polish_diacritics
   \<and> py_encode unknown_encode ''cp1250'' [90, 261, 281, 380] = Inr [0x5A, 0xB9, 0xEA, 0xBF]
   \<and> py_decode unknown_decode ''cp1250'' [0x5A, 0xB9, 0xEA, 0xBF] = Inr [90, 261, 281, 380]
   \<and> SUPPORTED_FORMATS ''UTF16BE'' = Some ''utf-16-be''
   \<and> py_encode unknown_encode ''utf-16-be'' [90, 261, 281, 380]
        = Inr [0x00, 0x5A, 0x01, 0x05, 0x01, 0x19, 0x01, 0x7C]
   \<and> py_decode unknown_decode ''utf-16-be'' [0x00, 0x5A, 0x01, 0x05, 0x01, 0x19, 0x01, 0x7C]
        = Inr [90, 261, 281, 380]"
proof -
  have f1: "SUPPORTED_FORMATS ''ANSI'' = Some ''cp1250''"
    and f2: "SUPPORTED_FORMATS ''UTF16BE'' = Some ''utf-16-be''"
    by (simp_all add: SUPPORTED_FORMATS_def)
  have p: "\<forall>c\<in>set [90, 261, 281, 380]. c < 128 \<or> c \<in> set polish_diacritics"
    by (simp add: polish_diacritics_def)
  have e1: "py_encode unknown_encode ''cp1250'' [90, 261, 281, 380] = Inr [0x5A, 0xB9, 0xEA, 0xBF]"
    by (simp add: py_encode_def codec_of_name_def charmap_encode_char_def cp1250_high_def)
  have e2: "py_encode unknown_encode ''utf-16-be'' [90, 261, 281, 380]
        = Inr [0x00, 0x5A, 0x01, 0x05, 0x01, 0x19, 0x01, 0x7C]"
    by (simp add: py_encode_def codec_of_name_def utf16_encode_char_def unit_bytes_def)
  show ?thesis
    using supported_codecs_round_trip [OF f1 p, of unknown_encode unknown_decode]
      supported_codecs_round_trip [OF f2 p, of unknown_encode unknown_decode]
      f1 f2 p e1 e2
    by auto
qed

subsection \<open>No label from the detector (C8)\<close>

text \<open>
  Claim C8, evaluated on the code. The claim asks for the label \<^verbatim>\<open>'unknown'\<close> when
  the detection routine yields no label. chardet reports that case as an
  \<^verbatim>\<open>'encoding'\<close> entry holding \<^verbatim>\<open>None\<close>; the key is present, the default of
  \<^verbatim>\<open>get\<close> is not used, and \<^verbatim>\<open>detect_encoding\<close> returns the label
  \<^verbatim>\<open>None\<close>.
\<close>

theorem detect_encoding_label_is_None:
  "detect_encoding (cpython_with no_label) ''in.txt'' (world_with [0x81]) =
     (Detected None 0,
      \<lparr>files = [''in.txt'' \<mapsto> [0x81]], denied = {}, stdout = [],
       calls = [ReadFile ''in.txt'', Detect]\<rparr>)"
  by (simp add: detect_encoding_def read_file_def record_call_def world_with_def
      cpython_with_def cpython_def no_label_def dict_get_def)

subsection \<open>Failing candidates (C9)\<close>

text \<open>
  Claim C9. With CPython's codecs, on a readable non-empty input, no exception leaves
  \<^verbatim>\<open>convert_encoding\<close> from the decoding attempts, whatever label the detector
  supplies for the loop and whether or not that label names a codec: a candidate that
  fails in the loop is passed over silently (nothing is printed for it and the loop
  goes on with the next candidate), and ISO 8859-2 decodes every input before the
  label's turn. A label containing "utf" is decoded on its own first; the labels of
  that kind that chardet supplies are names of Python codecs, so that attempt returns
  a text or raises \<^verbatim>\<open>UnicodeDecodeError\<close>, which is caught.
\<close>

theorem failed_candidates_do_not_escape:
  assumes "files w file_in = Some raw" and "file_in \<notin> denied w" and "raw \<noteq> []"
    and "confidence_entry (chardet_detect P raw) = Some c"
    and "dict_get (encoding_entry (chardet_detect P raw)) None = det"
    and "bytes_decode P = py_decode other_decode"
    and "truthy det \<and> contains (lower (the det)) ''utf'' \<longrightarrow>
           (\<forall>e. bytes_decode P (the det) raw = Inl e \<longrightarrow> e = UnicodeDecodeError)"
  shows "fst (convert_encoding P file_in file_out target_format w) = None
       \<and> (bytes_decode P enc raw = Inl UnicodeDecodeError
            \<or> bytes_decode P enc raw = Inl TypeError \<longrightarrow>
            try_encodings P raw det (enc # encs) v =
              try_encodings P raw det encs (v\<lparr>calls := calls v @ [Decode enc]\<rparr>))"
proof
  obtain t where "fst (decode_stage P raw det (detected_world w file_in det c)) = Inr (Some t)"
    using decode_stage_always_decodes [OF assms(6,7)] by blast
  then obtain w4 where
    "decode_stage P raw det (detected_world w file_in det c) = (Inr (Some t), w4)"
    by (cases "decode_stage P raw det (detected_world w file_in det c)") simp
  then show "fst (convert_encoding P file_in file_out target_format w) = None"
    using convert_encoding_started [OF assms(1-5)] by (simp add: conclude_def)
next
  show "bytes_decode P enc raw = Inl UnicodeDecodeError
            \<or> bytes_decode P enc raw = Inl TypeError \<longrightarrow>
            try_encodings P raw det (enc # encs) v =
              try_encodings P raw det encs (v\<lparr>calls := calls v @ [Decode enc]\<rparr>)"
    by (auto simp: record_call_def)
qed

theorem failed_candidates_do_not_escape_witness:
  "files (world_with [0x61, 0x81]) ''in.txt'' = Some [0x61, 0x81]
   \<and> ''in.txt'' \<notin> denied (world_with [0x61, 0x81])
   \<and> confidence_entry (chardet_detect (cpython_with (labelled ''EUC-TW'' 0.5)) [0x61, 0x81])
        = Some 0.5
   \<and> dict_get (encoding_entry (chardet_detect (cpython_with (labelled ''EUC-TW'' 0.5))
        [0x61, 0x81])) None = Some ''EUC-TW''
   \<and> bytes_decode (cpython_with (labelled ''EUC-TW'' 0.5)) = py_decode unknown_decode
   \<and> \<not> contains (lower ''EUC-TW'') ''utf''
   \<and> bytes_decode (cpython_with (labelled ''EUC-TW'' 0.5)) ''EUC-TW'' [0x61, 0x81]
        = Inl LookupError
   \<and> bytes_decode (cpython_with (labelled ''EUC-TW'' 0.5)) ''windows-1250'' [0x61, 0x81]
        = Inl UnicodeDecodeError
   \<and> fst (convert_encoding (cpython_with (labelled ''EUC-TW'' 0.5)) ''in.txt'' ''out.txt''
             ''UTF8'' (world_with [0x61, 0x81])) = None
   \<and> try_encodings (cpython_with (labelled ''EUC-TW'' 0.5)) [0x61, 0x81] (Some ''EUC-TW'')
        [''windows-1250'', ''iso8859_2'', ''EUC-TW''] (world_with [0x61, 0x81]) =
       (Inr (Some [97, 129]),
        \<lparr>files = [''in.txt'' \<mapsto> [0x61, 0x81]], denied = {},
         stdout = [UsedFallback ''iso8859_2''],
         calls = [Decode ''windows-1250'', Decode ''iso8859_2'']\<rparr>)
   \<and> dict_get (encoding_entry (chardet_detect (cpython_with (labelled ''utf-8'' 0.5))
        [0x61, 0x81])) None = Some ''utf-8''
   \<and> contains (lower ''utf-8'') ''utf''
   \<and> bytes_decode (cpython_with (labelled ''utf-8'' 0.5)) ''utf-8'' [0x61, 0x81]
        = Inl UnicodeDecodeError
   \<and> fst (convert_encoding (cpython_with (labelled ''utf-8'' 0.5)) ''in.txt'' ''out.txt''
             ''UTF8'' (world_with [0x61, 0x81])) = None"
proof -
  let ?P = "cpython_with (labelled ''EUC-TW'' 0.5)"
  let ?Q = "cpython_with (labelled ''utf-8'' 0.5)"
  let ?w = "world_with [0x61, 0x81]"
  have f: "files ?w ''in.txt'' = Some [0x61, 0x81]" and nd: "''in.txt'' \<notin> denied ?w"
    by (simp_all add: world_with_def)
  have ne: "[0x61, 0x81 :: byte] \<noteq> []" by simp
  have c: "confidence_entry (chardet_detect ?P [0x61, 0x81]) = Some 0.5"
    and l: "dict_get (encoding_entry (chardet_detect ?P [0x61, 0x81])) None = Some ''EUC-TW''"
    and cq: "confidence_entry (chardet_detect ?Q [0x61, 0x81]) = Some 0.5"
    and lq: "dict_get (encoding_entry (chardet_detect ?Q [0x61, 0x81])) None = Some ''utf-8''"
    by (simp_all add: cpython_with_def cpython_def labelled_def dict_get_def)
  have pd: "bytes_decode ?P = py_decode unknown_decode"
    and qd: "bytes_decode ?Q = py_decode unknown_decode"
    by (simp_all add: cpython_with_def cpython_def)
  have n: "\<not> contains (lower ''EUC-TW'') ''utf''"
    and u: "contains (lower ''utf-8'') ''utf''"
    by (simp_all add: lower_def lower_char_def)
  have lk: "bytes_decode ?P ''EUC-TW'' [0x61, 0x81] = Inl LookupError"
    by (simp add: platform_simps)
  have d1: "bytes_decode ?P ''windows-1250'' [0x61, 0x81] = Inl UnicodeDecodeError"
    by (simp add: platform_simps charmap_decode_byte_def cp1250_high_def)
  have d2: "bytes_decode ?P ''iso8859_2'' [0x61, 0x81] = Inr [97, 129]"
    by (simp add: platform_simps charmap_decode_byte_def iso8859_2_high_def)
  have d3: "bytes_decode ?Q ''utf-8'' [0x61, 0x81] = Inl UnicodeDecodeError"
    by (simp add: platform_simps is_cont_def cont_bits_def)
  have hp: "truthy (Some ''EUC-TW'') \<and> contains (lower (the (Some ''EUC-TW''))) ''utf'' \<longrightarrow>
           (\<forall>e. bytes_decode ?P (the (Some ''EUC-TW'')) [0x61, 0x81] = Inl e
                \<longrightarrow> e = UnicodeDecodeError)"
    using n by simp
  have hq: "truthy (Some ''utf-8'') \<and> contains (lower (the (Some ''utf-8''))) ''utf'' \<longrightarrow>
           (\<forall>e. bytes_decode ?Q (the (Some ''utf-8'')) [0x61, 0x81] = Inl e
                \<longrightarrow> e = UnicodeDecodeError)"
    using d3 by simp
  note tp = failed_candidates_do_not_escape [OF f nd ne c l pd hp, of "''out.txt''" "''UTF8''"
      "''windows-1250''" "[''iso8859_2'', ''EUC-TW'']" ?w]
  note tq = failed_candidates_do_not_escape [OF f nd ne cq lq qd hq, of "''out.txt''" "''UTF8''"
      "''windows-1250''" "[]" ?w, THEN conjunct1]
  have rest: "try_encodings ?P [0x61, 0x81] (Some ''EUC-TW'') [''iso8859_2'', ''EUC-TW'']
        (?w\<lparr>calls := calls ?w @ [Decode ''windows-1250'']\<rparr>) =
       (Inr (Some [97, 129]),
        \<lparr>files = [''in.txt'' \<mapsto> [0x61, 0x81]], denied = {},
         stdout = [UsedFallback ''iso8859_2''],
         calls = [Decode ''windows-1250'', Decode ''iso8859_2'']\<rparr>)"
    using d2 by (simp add: world_with_def record_call_def print_msg_def)
  show ?thesis
    using tp tq d1 rest f nd c l lq pd n u lk d3 by (simp del: try_encodings.simps)
qed

text \<open>
  The hypothesis on a label containing "utf" is needed: the handler of that first
  attempt catches \<^verbatim>\<open>UnicodeDecodeError\<close> only, and a label of that kind naming no
  codec would raise \<^verbatim>\<open>LookupError\<close>.
\<close>

lemma unknown_utf_label_escapes:
  "convert_encoding (cpython_with (labelled ''utf-99'' 0.5)) ''in.txt'' ''out.txt'' ''UTF8''
     (world_with [0x61]) =
     (Some LookupError,
      \<lparr>files = [''in.txt'' \<mapsto> [0x61]], denied = {},
       stdout = [ChardetDetected ''utf-99'' 50],
       calls = [ReadFile ''in.txt'', Detect, Decode ''utf-99'']\<rparr>)"
  by (simp add: convert_encoding_def read_file_def record_call_def print_msg_def
      world_with_def platform_simps dict_get_def truthy_def conclude_def decode_stage_def
      trust_utf_def lower_def lower_char_def)

subsection \<open>Failure of the encoder (C10)\<close>

text \<open>
  Claim C10. When the input has been decoded and the target codec cannot encode the
  text, the output file has already been opened for writing: after the call the output
  path exists with no content (created, or truncated if it existed), the encoder was
  called after the file was opened, and the error is reported as a write error. The
  text is encoded as a whole, so the part of it that the file holds is the empty one.
\<close>

theorem encode_failure_truncates_output:
  assumes "files w file_in = Some raw" and "file_in \<notin> denied w" and "raw \<noteq> []"
    and "confidence_entry (chardet_detect P raw) = Some c"
    and "dict_get (encoding_entry (chardet_detect P raw)) None = det"
    and "decode_stage P raw det (detected_world w file_in det c) = (Inr (Some t), w4)"
    and "SUPPORTED_FORMATS (upper target_format) = Some codec"
    and "file_out \<notin> denied w"
    and "text_encode P codec t = Inl e"
  shows "convert_encoding P file_in file_out target_format w =
           (None,
            w4\<lparr>files := (files w)(file_out \<mapsto> []),
               stdout := stdout w4 @ [ErrorWriting file_out e],
               calls := calls w4 @ [OpenWrite file_out, Encode codec]\<rparr>)"
proof -
  have k: "files w4 = files w" "denied w4 = denied w"
    using decode_stage_result_files [OF assms(6)] by (simp_all add: detected_world_files)
  have "convert_encoding P file_in file_out target_format w =
          (None, write_output P file_out (upper target_format) t w4)"
    using convert_encoding_started [OF assms(1-5)] assms(6) by (simp add: conclude_def)
  also have "write_output P file_out (upper target_format) t w4 =
            w4\<lparr>files := (files w)(file_out \<mapsto> []),
               stdout := stdout w4 @ [ErrorWriting file_out e],
               calls := calls w4 @ [OpenWrite file_out, Encode codec]\<rparr>"
    using assms(7-9) k
    by (cases w4) (simp add: write_output_def open_write_def record_call_def print_msg_def)
  finally show ?thesis .
qed

theorem encode_failure_truncates_output_witness:
  "files (world_with zajac_bytes) ''in.txt'' = Some zajac_bytes
   \<and> ''in.txt'' \<notin> denied (world_with zajac_bytes)
   \<and> zajac_bytes \<noteq> []
   \<and> decode_stage (cpython_with (labelled ''ISO-8859-1'' 0.73)) zajac_bytes
        (Some ''ISO-8859-1'')
        (detected_world (world_with zajac_bytes) ''in.txt'' (Some ''ISO-8859-1'') 0.73) =
       (Inr (Some [90, 97, 106, 177, 263]),
        \<lparr>files = [''in.txt'' \<mapsto> zajac_bytes], denied = {},
         stdout = [ChardetDetected ''ISO-8859-1'' 73, UsedFallback ''windows-1250''],
         calls = [ReadFile ''in.txt'', Detect, Decode ''windows-1250'']\<rparr>)
   \<and> SUPPORTED_FORMATS (upper ''iso8859_2'') = Some ''iso8859_2''
   \<and> ''out.txt'' \<notin> denied (world_with zajac_bytes)
   \<and> text_encode (cpython_with (labelled ''ISO-8859-1'' 0.73)) ''iso8859_2''
        [90, 97, 106, 177, 263] = Inl UnicodeEncodeError
   \<and> convert_encoding (cpython_with (labelled ''ISO-8859-1'' 0.73)) ''in.txt'' ''out.txt''
        ''iso8859_2'' (world_with zajac_bytes) =
       (None,
        \<lparr>files = [''in.txt'' \<mapsto> zajac_bytes, ''out.txt'' \<mapsto> []], denied = {},
         stdout = [ChardetDetected ''ISO-8859-1'' 73, UsedFallback ''windows-1250'',
                   ErrorWriting ''out.txt'' UnicodeEncodeError],
         calls = [ReadFile ''in.txt'', Detect, Decode ''windows-1250'',
                  OpenWrite ''out.txt'', Encode ''iso8859_2'']\<rparr>)"
proof -
  let ?P = "cpython_with (labelled ''ISO-8859-1'' 0.73)"
  let ?w = "world_with zajac_bytes"
  have f: "files ?w ''in.txt'' = Some zajac_bytes" and nd: "''in.txt'' \<notin> denied ?w"
    and no: "''out.txt'' \<notin> denied ?w"
    by (simp_all add: world_with_def)
  have ne: "zajac_bytes \<noteq> []" by (simp add: zajac_bytes_def)
  have c: "confidence_entry (chardet_detect ?P zajac_bytes) = Some 0.73"
    and l: "dict_get (encoding_entry (chardet_detect ?P zajac_bytes)) None
              = Some ''ISO-8859-1''"
    by (simp_all add: cpython_with_def cpython_def labelled_def dict_get_def)
  have dec: "bytes_decode ?P ''windows-1250'' zajac_bytes = Inr [90, 97, 106, 177, 263]"
    by (simp add: platform_simps zajac_cp1250)
  have nu: "\<not> (truthy (Some ''ISO-8859-1'') \<and> contains (lower (the (Some ''ISO-8859-1''))) ''utf'')"
    by (simp add: lower_def lower_char_def)
  have st: "decode_stage ?P zajac_bytes (Some ''ISO-8859-1'')
        (detected_world ?w ''in.txt'' (Some ''ISO-8859-1'') 0.73) =
       (Inr (Some [90, 97, 106, 177, 263]),
        \<lparr>files = [''in.txt'' \<mapsto> zajac_bytes], denied = {},
         stdout = [ChardetDetected ''ISO-8859-1'' 73, UsedFallback ''windows-1250''],
         calls = [ReadFile ''in.txt'', Detect, Decode ''windows-1250'']\<rparr>)"
    using dec
    by (simp add: decode_stage_no_utf [OF nu] encodings_to_try_def truthy_def
        detected_world_def world_with_def record_call_def print_msg_def)
  have sf: "SUPPORTED_FORMATS (upper ''iso8859_2'') = Some ''iso8859_2''"
    by (simp add: SUPPORTED_FORMATS_def upper_def upper_char_def)
  have enc: "text_encode ?P ''iso8859_2'' [90, 97, 106, 177, 263] = Inl UnicodeEncodeError"
    by (simp add: platform_simps charmap_encode_char_def iso8859_2_high_def)
  show ?thesis
    using encode_failure_truncates_output [OF f nd ne c l st sf no enc]
      f nd ne st sf no enc
    by (simp add: world_with_def)
qed

end
